theory Spec2Isabelle
  imports Main
begin

section \<open>Errors\<close>

text \<open>
  Go error values.  \<open>ErrUnexpectedEOF\<close> is the sentinel \<open>io.ErrUnexpectedEOF\<close> the
  stream loop compares against; \<open>ErrorsNew\<close>, \<open>ErrorsErrorf\<close> and \<open>ErrorsWrap\<close> are the
  constructors of \<open>github.com/stellar/go/support/errors\<close>; \<open>SyntaxError\<close> and
  \<open>UnmarshalTypeError\<close> are those of \<open>encoding/json\<close>; \<open>Foreign\<close> is any other error
  (a handler's, the HTTP client's, the scanner's).
\<close>

datatype fmtarg = ArgString string | ArgInt int

datatype error =
    ErrUnexpectedEOF
  | ErrorsNew string
  | ErrorsErrorf string "fmtarg list"
  | ErrorsWrap error string
  | SyntaxError string
  | UnmarshalTypeError string string
  | Foreign string

text \<open>\<open>errors.Wrap(err, msg)\<close> is nil when \<open>err\<close> is nil.\<close>

fun Wrap :: "error option \<Rightarrow> string \<Rightarrow> error option" where
  "Wrap None msg = None"
| "Wrap (Some e) msg = Some (ErrorsWrap e msg)"

section \<open>encoding/json: documents, Go types and values\<close>

text \<open>
  A JSON document after the syntax layer.  \<open>JInt i\<close> is a number literal without
  fraction or exponent, \<open>JFrac s\<close> any other number literal (its text); the members of
  an object keep their order and their duplicates.
\<close>

datatype json =
    JNull
  | JBool bool
  | JInt int
  | JFrac string
  | JString string
  | JArray "json list"
  | JObject "(string \<times> json) list"

text \<open>
  The Go types that occur in the structs of the package.  A struct is its list of
  fields (Go name, JSON tag, type), embedded structs flattened as Go promotes their
  fields.  \<open>KInt w\<close> is a signed integer of \<open>w\<close> bits.  \<open>KExtern n\<close> is a type declared
  outside the files at hand (\<open>Link\<close>, \<open>Asset\<close>, \<open>Price\<close>, \<open>time.Time\<close>); its zero value
  and its decoding are parameters.
\<close>

datatype kind =
    KString
  | KInt nat
  | KBool
  | KPtr kind
  | KSlice kind
  | KStruct "(string \<times> string \<times> kind) list"
  | KExtern string

datatype gval =
    VString string
  | VInt int
  | VBool bool
  | VNil
  | VPtr gval
  | VSlice "gval list"
  | VStruct "(string \<times> gval) list"
  | VOpaque json

type_synonym field = "string \<times> string \<times> kind"

text \<open>
  What the code takes from \<open>encoding/json\<close> and from the types declared elsewhere:
  \<open>parse\<close> is the syntax layer on a byte slice of type \<open>'b\<close> (\<open>Inl\<close> a syntax error),
  \<open>extern_zero\<close> and \<open>extern_decode\<close> give the zero value of an external type and
  decode a document into a value of it.
\<close>

record 'b jsonlib =
  parse :: "'b \<Rightarrow> error + json"
  extern_zero :: "string \<Rightarrow> gval"
  extern_decode :: "string \<Rightarrow> gval \<Rightarrow> json \<Rightarrow> gval \<times> error option"

fun zero :: "(string \<Rightarrow> gval) \<Rightarrow> kind \<Rightarrow> gval"
  and zero_fields :: "(string \<Rightarrow> gval) \<Rightarrow> field list \<Rightarrow> (string \<times> gval) list" where
  "zero Z KString = VString []"
| "zero Z (KInt w) = VInt 0"
| "zero Z KBool = VBool False"
| "zero Z (KPtr k) = VNil"
| "zero Z (KSlice k) = VNil"
| "zero Z (KStruct fs) = VStruct (zero_fields Z fs)"
| "zero Z (KExtern n) = Z n"
| "zero_fields Z [] = []"
| "zero_fields Z ((n, t, k) # fs) = (n, zero Z k) # zero_fields Z fs"

text \<open>
  Field lookup for an object key: an exact match of the tag wins, otherwise the first
  field whose tag equals the key up to the case of ASCII letters.
\<close>

definition lower :: "char \<Rightarrow> char" where
  "lower c = (case map_of (zip ''ABCDEFGHIJKLMNOPQRSTUVWXYZ'' ''abcdefghijklmnopqrstuvwxyz'') c of
                Some d \<Rightarrow> d | None \<Rightarrow> c)"

definition equalFold :: "string \<Rightarrow> string \<Rightarrow> bool" where
  "equalFold s t = (map lower s = map lower t)"

definition find_field :: "field list \<Rightarrow> string \<Rightarrow> field option" where
  "find_field fs key =
     (case find (\<lambda>(n, t, k). t = key) fs of
        Some f \<Rightarrow> Some f
      | None \<Rightarrow> find (\<lambda>(n, t, k). equalFold t key) fs)"

fun json_name :: "json \<Rightarrow> string" where
  "json_name JNull = ''null''"
| "json_name (JBool b) = ''bool''"
| "json_name (JInt i) = ''number''"
| "json_name (JFrac s) = ''number''"
| "json_name (JString s) = ''string''"
| "json_name (JArray xs) = ''array''"
| "json_name (JObject ms) = ''object''"

fun kind_name :: "kind \<Rightarrow> string" where
  "kind_name KString = ''string''"
| "kind_name (KInt w) = ''int''"
| "kind_name KBool = ''bool''"
| "kind_name (KPtr k) = ''pointer''"
| "kind_name (KSlice k) = ''slice''"
| "kind_name (KStruct fs) = ''struct''"
| "kind_name (KExtern n) = n"

definition type_error :: "json \<Rightarrow> kind \<Rightarrow> error" where
  "type_error j k = UnmarshalTypeError (json_name j) (kind_name k)"

text \<open>The decoder keeps the first error it saved and goes on.\<close>

fun saveError :: "error option \<Rightarrow> error option \<Rightarrow> error option" where
  "saveError None e = e"
| "saveError (Some d) e = Some d"

fun field_value :: "gval \<Rightarrow> string \<Rightarrow> gval" where
  "field_value (VStruct vs) n = (case map_of vs n of Some v \<Rightarrow> v | None \<Rightarrow> VNil)"
| "field_value v n = VNil"

fun set_field :: "gval \<Rightarrow> string \<Rightarrow> gval \<Rightarrow> gval" where
  "set_field (VStruct vs) n x = VStruct (map (\<lambda>(m, v). if m = n then (m, x) else (m, v)) vs)"
| "set_field v n x = v"

function decode :: "'b jsonlib \<Rightarrow> kind \<Rightarrow> gval \<Rightarrow> json \<Rightarrow> gval \<times> error option"
  and decode_members ::
    "'b jsonlib \<Rightarrow> field list \<Rightarrow> gval \<times> error option \<Rightarrow> (string \<times> json) list \<Rightarrow> gval \<times> error option"
  and decode_elems :: "'b jsonlib \<Rightarrow> kind \<Rightarrow> json list \<Rightarrow> gval list \<times> error option" where
  "decode L KString v j =
     (case j of JString s \<Rightarrow> (VString s, None)
      | JNull \<Rightarrow> (v, None)
      | _ \<Rightarrow> (v, Some (type_error j KString)))"
| "decode L (KInt w) v j =
     (case j of
        JInt i \<Rightarrow> (if - (2 ^ (w - 1)) \<le> i \<and> i < 2 ^ (w - 1) then (VInt i, None)
                   else (v, Some (type_error j (KInt w))))
      | JNull \<Rightarrow> (v, None)
      | _ \<Rightarrow> (v, Some (type_error j (KInt w))))"
| "decode L KBool v j =
     (case j of JBool b \<Rightarrow> (VBool b, None)
      | JNull \<Rightarrow> (v, None)
      | _ \<Rightarrow> (v, Some (type_error j KBool)))"
| "decode L (KPtr k) v j =
     (case j of JNull \<Rightarrow> (VNil, None)
      | _ \<Rightarrow> (case decode L k (case v of VPtr x \<Rightarrow> x | _ \<Rightarrow> zero (extern_zero L) k) j of
                (x, e) \<Rightarrow> (VPtr x, e)))"
| "decode L (KSlice k) v j =
     (case j of JNull \<Rightarrow> (VNil, None)
      | JArray xs \<Rightarrow> (case decode_elems L k xs of (ys, e) \<Rightarrow> (VSlice ys, e))
      | _ \<Rightarrow> (v, Some (type_error j (KSlice k))))"
| "decode L (KStruct fs) v j =
     (case j of JNull \<Rightarrow> (v, None)
      | JObject ms \<Rightarrow> decode_members L fs (v, None) ms
      | _ \<Rightarrow> (v, Some (type_error j (KStruct fs))))"
| "decode L (KExtern n) v j = extern_decode L n v j"
| "decode_members L fs ve [] = ve"
| "decode_members L fs ve ((key, j) # ms) =
     (case find_field fs key of
        None \<Rightarrow> decode_members L fs ve ms
      | Some (n, t, k) \<Rightarrow>
          (case decode L k (field_value (fst ve) n) j of
             (x, e) \<Rightarrow> decode_members L fs (set_field (fst ve) n x, saveError (snd ve) e) ms))"
| "decode_elems L k [] = ([], None)"
| "decode_elems L k (j # js) =
     (case decode L k (zero (extern_zero L) k) j of
        (x, e) \<Rightarrow> (case decode_elems L k js of (xs, e') \<Rightarrow> (x # xs, saveError e e')))"
  by pat_completeness auto
termination
  by (relation "measures [\<lambda>x. case x of
        Inl (L, k, v, j) \<Rightarrow> 2 * size j
      | Inr (Inl (L, fs, ve, ms)) \<Rightarrow> 2 * size_list (size_prod (\<lambda>_. 0) size) ms + 1
      | Inr (Inr (L, k, js)) \<Rightarrow> 2 * size_list size js + 1,
      \<lambda>x. case x of Inl (L, k, v, j) \<Rightarrow> size k | _ \<Rightarrow> 0]") auto

text \<open>
  \<open>json.Unmarshal(data, &v)\<close> for a struct \<open>v\<close> that holds its zero value: a syntax
  error leaves \<open>v\<close> untouched; \<open>None\<close> is the nil slice, on which the syntax layer
  reports the end of the input.
\<close>

definition Unmarshal :: "'b jsonlib \<Rightarrow> 'b option \<Rightarrow> field list \<Rightarrow> gval \<times> error option" where
  "Unmarshal L data fs =
     (let v = zero (extern_zero L) (KStruct fs) in
      case data of
        None \<Rightarrow> (v, Some (SyntaxError ''unexpected end of JSON input''))
      | Some d \<Rightarrow>
          (case parse L d of
             Inl e \<Rightarrow> (v, Some e)
           | Inr j \<Rightarrow> decode L (KStruct fs) v j))"


section \<open>Effects (effect.go)\<close>

definition LinksEffect :: "field list" where
  "LinksEffect =
     [(''Operation'', ''operation'', KExtern ''Link''),
      (''Succeeds'', ''succeeds'', KExtern ''Link''),
      (''Precedes'', ''precedes'', KExtern ''Link'')]"

definition BaseEffect :: "field list" where
  "BaseEffect =
     [(''LinksEffect'', ''_links'', KStruct LinksEffect),
      (''ID'', ''id'', KString),
      (''PT'', ''paging_token'', KString),
      (''Account'', ''account'', KString),
      (''Type'', ''type'', KString),
      (''TypeI'', ''type_i'', KInt 32),
      (''OperationID'', ''operation_id'', KString),
      (''Order'', ''order'', KInt 32)]"

datatype effect_struct =
    AccountCreatedEffect
  | AccountRemovedEffect
  | AccountCreditedEffect
  | AccountDebitedEffect
  | AccountThresholdsUpdatedEffect
  | AccountHomeDomainUpdatedEffect
  | AccountFlagsUpdatedEffect
  | AccountInflationDestinationUpdatedEffect
  | SignerCreatedEffect
  | SignerRemovedEffect
  | SignerUpdatedEffect
  | TrustlineCreatedEffect
  | TrustlineRemovedEffect
  | TrustlineUpdatedEffect
  | TrustlineAuthorizedEffect
  | TrustlineDeauthorizedEffect
  | OfferCreatedEffect
  | OfferRemovedEffect
  | OfferUpdatedEffect
  | TradeEffect
  | DataCreatedEffect
  | DataRemovedEffect
  | DataUpdatedEffect

definition asset_amount_fields :: "field list" where
  "asset_amount_fields =
     [(''AssetType'', ''asset_type'', KString),
      (''AssetCode'', ''asset_code'', KString),
      (''AssetIssuer'', ''asset_issuer'', KString),
      (''Amount'', ''amount'', KString)]"

definition signer_fields :: "field list" where
  "signer_fields =
     [(''Weight'', ''weight'', KInt 32),
      (''PublicKey'', ''public_key'', KString),
      (''Key'', ''key'', KString)]"

definition trustline_fields :: "field list" where
  "trustline_fields =
     [(''AssetType'', ''asset_type'', KString),
      (''AssetCode'', ''asset_code'', KString),
      (''AssetIssuer'', ''asset_issuer'', KString),
      (''Limit'', ''limit'', KString)]"

definition trustor_fields :: "field list" where
  "trustor_fields =
     [(''Trustor'', ''trustor'', KString),
      (''AssetType'', ''asset_type'', KString),
      (''AssetCode'', ''asset_code'', KString)]"

text \<open>The struct declarations: every effect embeds \<open>BaseEffect\<close>.\<close>

fun effect_fields :: "effect_struct \<Rightarrow> field list" where
  "effect_fields AccountCreatedEffect =
     BaseEffect @ [(''StartingBalance'', ''starting_balance'', KString)]"
| "effect_fields AccountRemovedEffect = BaseEffect"
| "effect_fields AccountCreditedEffect = BaseEffect @ asset_amount_fields"
| "effect_fields AccountDebitedEffect = BaseEffect @ asset_amount_fields"
| "effect_fields AccountThresholdsUpdatedEffect =
     BaseEffect @
     [(''LowThreshold'', ''low_threshold'', KInt 32),
      (''MedThreshold'', ''med_threshold'', KInt 32),
      (''HighThreshold'', ''high_threshold'', KInt 32)]"
| "effect_fields AccountHomeDomainUpdatedEffect =
     BaseEffect @ [(''HomeDomain'', ''home_domain'', KString)]"
| "effect_fields AccountFlagsUpdatedEffect =
     BaseEffect @
     [(''AuthRequired'', ''auth_required_flag'', KPtr KBool),
      (''AuthRevokable'', ''auth_revokable_flag'', KPtr KBool)]"
| "effect_fields AccountInflationDestinationUpdatedEffect = BaseEffect"
| "effect_fields SignerCreatedEffect = BaseEffect @ signer_fields"
| "effect_fields SignerRemovedEffect = BaseEffect @ signer_fields"
| "effect_fields SignerUpdatedEffect = BaseEffect @ signer_fields"
| "effect_fields TrustlineCreatedEffect = BaseEffect @ trustline_fields"
| "effect_fields TrustlineRemovedEffect = BaseEffect @ trustline_fields"
| "effect_fields TrustlineUpdatedEffect = BaseEffect @ trustline_fields"
| "effect_fields TrustlineAuthorizedEffect = BaseEffect @ trustor_fields"
| "effect_fields TrustlineDeauthorizedEffect = BaseEffect @ trustor_fields"
| "effect_fields OfferCreatedEffect = BaseEffect"
| "effect_fields OfferRemovedEffect = BaseEffect"
| "effect_fields OfferUpdatedEffect = BaseEffect"
| "effect_fields TradeEffect =
     BaseEffect @
     [(''Seller'', ''seller'', KString),
      (''OfferID'', ''offer_id'', KInt 64),
      (''SoldAmount'', ''sold_amount'', KString),
      (''SoldAssetType'', ''sold_asset_type'', KString),
      (''SoldAssetCode'', ''sold_asset_code'', KString),
      (''SoldAssetIssuer'', ''sold_asset_issuer'', KString),
      (''BoughtAmount'', ''bought_amount'', KString),
      (''BoughtAssetType'', ''bought_asset_type'', KString),
      (''BoughtAssetCode'', ''bought_asset_code'', KString),
      (''BoughtAssetIssuer'', ''bought_asset_issuer'', KString)]"
| "effect_fields DataCreatedEffect = BaseEffect"
| "effect_fields DataRemovedEffect = BaseEffect"
| "effect_fields DataUpdatedEffect = BaseEffect"

text \<open>
  An \<open>Effect\<close> interface value: a pointer to one of the structs, that is the struct's
  type and its contents.
\<close>

record Effect =
  effect_struct_of :: effect_struct
  effect_value :: gval


text \<open>
  The \<open>switch effectType.Type\<close> of \<open>UnmarshalEffect\<close>, case by case in the order of the
  source: the struct each case allocates.  A Go \<open>switch\<close> takes the first case that
  matches, as \<open>map_of\<close> does.
\<close>

definition effect_cases :: "(string \<times> effect_struct) list" where
  "effect_cases =
     [(''account_created'', AccountCreatedEffect),
      (''account_removed'', AccountRemovedEffect),
      (''account_credited'', AccountCreditedEffect),
      (''account_debited'', AccountDebitedEffect),
      (''account_thresholds_updated'', AccountCreatedEffect),
      (''account_home_domain_updated'', AccountHomeDomainUpdatedEffect),
      (''account_flags_updated'', AccountFlagsUpdatedEffect),
      (''account_inflation_destination_updated'', AccountInflationDestinationUpdatedEffect),
      (''signer_created'', SignerCreatedEffect),
      (''signer_removed'', SignerRemovedEffect),
      (''signer_updated'', SignerUpdatedEffect),
      (''trustline_created'', TrustlineCreatedEffect),
      (''trustline_removed'', TrustlineRemovedEffect),
      (''trustline_updated'', TrustlineUpdatedEffect),
      (''trustline_authorized'', TrustlineAuthorizedEffect),
      (''trustline_deauthorized'', TrustlineDeauthorizedEffect),
      (''offer_created'', OfferCreatedEffect),
      (''offer_removed'', OfferRemovedEffect),
      (''offer_updated'', OfferUpdatedEffect),
      (''trade'', TradeEffect),
      (''data_created'', DataCreatedEffect),
      (''data_removed'', DataRemovedEffect),
      (''data_updated'', DataUpdatedEffect)]"

text \<open>The anonymous struct \<open>effectType\<close> that the first pass decodes into.\<close>

definition effectType_struct :: "field list" where
  "effectType_struct = [(''Type'', ''type'', KString)]"

definition string_field :: "gval \<Rightarrow> string \<Rightarrow> string" where
  "string_field v n = (case field_value v n of VString s \<Rightarrow> s | _ \<Rightarrow> [])"

definition int_field :: "gval \<Rightarrow> string \<Rightarrow> int" where
  "int_field v n = (case field_value v n of VInt i \<Rightarrow> i | _ \<Rightarrow> 0)"

text \<open>
  \<open>UnmarshalEffect\<close> returns the pair (effect, error) of the source: on the last line
  the effect is returned together with the wrapped error of the second pass.
\<close>

definition UnmarshalEffect :: "'b jsonlib \<Rightarrow> 'b \<Rightarrow> Effect option \<times> error option" where
  "UnmarshalEffect L data =
     (case Unmarshal L (Some data) effectType_struct of
        (effectType, Some err) \<Rightarrow> (None, Some (ErrorsWrap err ''error unmarshaling effect''))
      | (effectType, None) \<Rightarrow>
          (case map_of effect_cases (string_field effectType ''Type'') of
             None \<Rightarrow>
               (None, Some (ErrorsErrorf ''unknown effect type %d''
                              [ArgString (string_field effectType ''Type'')]))
           | Some T \<Rightarrow>
               (case Unmarshal L (Some data) (effect_fields T) of
                  (e, err) \<Rightarrow>
                    (Some \<lparr>effect_struct_of = T, effect_value = e\<rparr>,
                     Wrap err ''error unmarshaling effect''))))"

section \<open>Operations (operation.go)\<close>

definition Links :: "field list" where
  "Links =
     [(''Self'', ''self'', KExtern ''Link''),
      (''Transaction'', ''transaction'', KExtern ''Link''),
      (''Effects'', ''effects'', KExtern ''Link''),
      (''Succeeds'', ''succeeds'', KExtern ''Link''),
      (''Precedes'', ''precedes'', KExtern ''Link'')]"

definition BaseOperation :: "field list" where
  "BaseOperation =
     [(''Links'', ''_links'', KStruct Links),
      (''ID'', ''id'', KString),
      (''PT'', ''paging_token'', KString),
      (''SourceAccount'', ''source_account'', KString),
      (''Type'', ''type'', KString),
      (''TypeI'', ''type_i'', KInt 32),
      (''LedgerClosedAt'', ''created_at'', KExtern ''time.Time''),
      (''TransactionHash'', ''transaction_hash'', KString),
      (''Order'', ''order'', KInt 32)]"

datatype operation_struct =
    CreateAccountOperation
  | PaymentOperation
  | PathPaymentOperation
  | ManageOfferOperation
  | CreatePassiveOfferOperation
  | SetOptionsOperation
  | ChangeTrustOperation
  | AllowTrustOperation
  | AccountMergeOperation
  | InflationOperation
  | ManageDataOperation

definition PaymentOperation_fields :: "field list" where
  "PaymentOperation_fields =
     BaseOperation @
     [(''AssetType'', ''asset_type'', KString),
      (''AssetCode'', ''asset_code'', KString),
      (''AssetIssuer'', ''asset_issuer'', KString),
      (''From'', ''from'', KString),
      (''To'', ''to'', KString),
      (''Amount'', ''amount'', KString)]"

definition CreatePassiveOfferOperation_fields :: "field list" where
  "CreatePassiveOfferOperation_fields =
     BaseOperation @
     [(''Amount'', ''amount'', KString),
      (''Price'', ''price'', KString),
      (''PriceR'', ''price_r'', KExtern ''Price''),
      (''BuyingAssetType'', ''buying_asset_type'', KString),
      (''BuyingAssetCode'', ''buying_asset_code'', KString),
      (''BuyingAssetIssuer'', ''buying_asset_issuer'', KString),
      (''SellingAssetType'', ''selling_asset_type'', KString),
      (''SellingAssetCode'', ''selling_asset_code'', KString),
      (''SellingAssetIssuer'', ''selling_asset_issuer'', KString)]"

fun operation_fields :: "operation_struct \<Rightarrow> field list" where
  "operation_fields CreateAccountOperation =
     BaseOperation @
     [(''StartingBalance'', ''starting_balance'', KString),
      (''Funder'', ''funder'', KString),
      (''Account'', ''account'', KString)]"
| "operation_fields PaymentOperation = PaymentOperation_fields"
| "operation_fields PathPaymentOperation =
     PaymentOperation_fields @
     [(''Path'', ''path'', KSlice (KExtern ''Asset'')),
      (''SourceMax'', ''source_max'', KString),
      (''SourceAssetType'', ''source_asset_type'', KString),
      (''SourceAssetCode'', ''source_asset_code'', KString),
      (''SourceAssetIssuer'', ''source_asset_issuer'', KString)]"
| "operation_fields ManageDataOperation =
     BaseOperation @
     [(''Name'', ''name'', KString),
      (''Value'', ''value'', KString)]"
| "operation_fields CreatePassiveOfferOperation = CreatePassiveOfferOperation_fields"
| "operation_fields ManageOfferOperation =
     CreatePassiveOfferOperation_fields @ [(''OfferID'', ''offer_id'', KInt 64)]"
| "operation_fields SetOptionsOperation =
     BaseOperation @
     [(''HomeDomain'', ''home_domain'', KString),
      (''InflationDest'', ''inflation_dest'', KString),
      (''MasterKeyWeight'', ''master_key_weight'', KPtr (KInt 64)),
      (''SignerKey'', ''signer_key'', KString),
      (''SignerWeight'', ''signer_weight'', KPtr (KInt 64)),
      (''SetFlags'', ''set_flags'', KSlice (KInt 64)),
      (''SetFlagsS'', ''set_flags_s'', KSlice KString),
      (''ClearFlags'', ''clear_flags'', KSlice (KInt 64)),
      (''ClearFlagsS'', ''clear_flags_s'', KSlice KString),
      (''LowThreshold'', ''low_threshold'', KPtr (KInt 64)),
      (''MedThreshold'', ''med_threshold'', KPtr (KInt 64)),
      (''HighThreshold'', ''high_threshold'', KPtr (KInt 64))]"
| "operation_fields ChangeTrustOperation =
     BaseOperation @
     [(''AssetType'', ''asset_type'', KString),
      (''AssetCode'', ''asset_code'', KString),
      (''AssetIssuer'', ''asset_issuer'', KString),
      (''Limit'', ''limit'', KString),
      (''Trustee'', ''trustee'', KString),
      (''Trustor'', ''trustor'', KString)]"
| "operation_fields AllowTrustOperation =
     BaseOperation @
     [(''AssetType'', ''asset_type'', KString),
      (''AssetCode'', ''asset_code'', KString),
      (''AssetIssuer'', ''asset_issuer'', KString),
      (''Trustee'', ''trustee'', KString),
      (''Trustor'', ''trustor'', KString),
      (''Authorize'', ''authorize'', KBool)]"
| "operation_fields AccountMergeOperation =
     BaseOperation @
     [(''Account'', ''account'', KString),
      (''Into'', ''into'', KString)]"
| "operation_fields InflationOperation = BaseOperation"

record Operation =
  operation_struct_of :: operation_struct
  operation_value :: gval


text \<open>
  The constants of package \<open>xdr\<close> that the switch of \<open>UnmarshalOperation\<close> names; the
  package is not among the files at hand, so their values are a parameter.
\<close>

record xdr =
  OperationTypeCreateAccount :: int
  OperationTypePayment :: int
  OperationTypePathPayment :: int
  OperationTypeManageOffer :: int
  OperationTypeCreatePassiveOffer :: int
  OperationTypeSetOptions :: int
  OperationTypeChangeTrust :: int
  OperationTypeAllowTrust :: int
  OperationTypeAccountMerge :: int
  OperationTypeInflation :: int
  OperationTypeManageData :: int

definition operation_cases :: "xdr \<Rightarrow> (int \<times> operation_struct) list" where
  "operation_cases X =
     [(OperationTypeCreateAccount X, CreateAccountOperation),
      (OperationTypePayment X, PaymentOperation),
      (OperationTypePathPayment X, PathPaymentOperation),
      (OperationTypeManageOffer X, ManageOfferOperation),
      (OperationTypeCreatePassiveOffer X, CreatePassiveOfferOperation),
      (OperationTypeSetOptions X, SetOptionsOperation),
      (OperationTypeChangeTrust X, ChangeTrustOperation),
      (OperationTypeAllowTrust X, AllowTrustOperation),
      (OperationTypeAccountMerge X, AccountMergeOperation),
      (OperationTypeInflation X, InflationOperation),
      (OperationTypeManageData X, ManageDataOperation)]"

definition opType_struct :: "field list" where
  "opType_struct = [(''TypeI'', ''type_i'', KInt 32)]"

definition UnmarshalOperation ::
  "'b jsonlib \<Rightarrow> xdr \<Rightarrow> 'b \<Rightarrow> Operation option \<times> error option" where
  "UnmarshalOperation L X data =
     (case Unmarshal L (Some data) opType_struct of
        (opType, Some err) \<Rightarrow> (None, Some (ErrorsWrap err ''error unmarshaling operation''))
      | (opType, None) \<Rightarrow>
          (case map_of (operation_cases X) (int_field opType ''TypeI'') of
             None \<Rightarrow>
               (None, Some (ErrorsErrorf ''unknown operation type %d''
                              [ArgInt (int_field opType ''TypeI'')]))
           | Some T \<Rightarrow>
               (case Unmarshal L (Some data) (operation_fields T) of
                  (ov, err) \<Rightarrow>
                    (Some \<lparr>operation_struct_of = T, operation_value = ov\<rparr>,
                     Wrap err ''error unmarshaling operation''))))"

text \<open>
  A sample library for evaluating the decoders on documents: the byte slice is the
  document itself, external types keep the raw document.
\<close>

definition sample_lib :: "json jsonlib" where
  "sample_lib =
     \<lparr>parse = Inr,
      extern_zero = (\<lambda>n. VNil),
      extern_decode = (\<lambda>n v j. (VOpaque j, None))\<rparr>"

definition sample_xdr :: xdr where
  "sample_xdr =
     \<lparr>OperationTypeCreateAccount = 0, OperationTypePayment = 1,
      OperationTypePathPayment = 2, OperationTypeManageOffer = 3,
      OperationTypeCreatePassiveOffer = 4, OperationTypeSetOptions = 5,
      OperationTypeChangeTrust = 6, OperationTypeAllowTrust = 7,
      OperationTypeAccountMerge = 8, OperationTypeInflation = 9,
      OperationTypeManageData = 10\<rparr>"


section \<open>The stream loop (main.go)\<close>

subsection \<open>net/url: query values\<close>

definition shouldEscape :: "char \<Rightarrow> bool" where
  "shouldEscape c \<longleftrightarrow>
     c \<notin> set ''ABCDEFGHIJKLMNOPQRSTUVWXYZabcdefghijklmnopqrstuvwxyz0123456789-_.~''"

definition upperhex :: "nat \<Rightarrow> char" where
  "upperhex n = ''0123456789ABCDEF'' ! (n mod 16)"

definition QueryEscape :: "string \<Rightarrow> string" where
  "QueryEscape s =
     concat (map (\<lambda>c. if c = CHR '' '' then ''+''
                       else if shouldEscape c
                         then [CHR ''%'', upperhex (of_char c div 16), upperhex (of_char c mod 16)]
                       else [c]) s)"

text \<open>
  \<open>url.Values\<close>: keys with their lists of values.  \<open>Encode\<close> writes the keys in
  sorted order; the loop only ever sets the key \<open>cursor\<close>, so the list order is that
  order.
\<close>

type_synonym Values = "(string \<times> string list) list"

fun Values_Set :: "Values \<Rightarrow> string \<Rightarrow> string \<Rightarrow> Values" where
  "Values_Set [] k v = [(k, [v])]"
| "Values_Set ((k', vs) # q) k v =
     (if k' = k then (k, [v]) # q else (k', vs) # Values_Set q k v)"

fun join_amp :: "string list \<Rightarrow> string" where
  "join_amp [] = []"
| "join_amp [x] = x"
| "join_amp (x # y # ys) = x @ ''&'' @ join_amp (y # ys)"

definition Encode :: "Values \<Rightarrow> string" where
  "Encode q =
     join_amp (concat (map (\<lambda>(k, vs). map (\<lambda>v. QueryEscape k @ ''='' @ QueryEscape v) vs) q))"

subsection \<open>The world the loop runs in\<close>

record request =
  req_method :: string
  req_url :: string
  req_header :: "(string \<times> string) list"

text \<open>
  \<open>http.NewRequest\<close> fails when the URL does not parse; which URLs do not is the
  parameter \<open>url_error\<close>.
\<close>

definition NewRequest :: "(string \<Rightarrow> error option) \<Rightarrow> string \<Rightarrow> string \<Rightarrow> error + request" where
  "NewRequest url_err m u =
     (case url_err u of
        Some e \<Rightarrow> Inl e
      | None \<Rightarrow> Inr \<lparr>req_method = m, req_url = u, req_header = []\<rparr>)"

fun Header_Set :: "(string \<times> string) list \<Rightarrow> string \<Rightarrow> string \<Rightarrow> (string \<times> string) list" where
  "Header_Set [] k v = [(k, v)]"
| "Header_Set ((k', v') # h) k v =
     (if k' = k then (k, v) # h else (k', v') # Header_Set h k v)"

text \<open>
  The event \<open>parseEvent\<close> returns: its label and its data, an \<open>interface{}\<close> that the
  loop switches on.
\<close>

datatype 'b evdata = DataString 'b | DataBytes 'b | DataOther

record 'b sse_event =
  Event :: string
  Data :: "'b evdata"

text \<open>
  Everything outside the loop, over a state of the world \<open>'w\<close>: the HTTP client
  (\<open>c.HTTP.Do\<close>), the scanner on the response body (\<open>scanner.Scan\<close> with the token it
  found, \<open>scanner.Err\<close>), the context (\<open>ctx.Done\<close>), \<open>parseEvent\<close> and the caller's
  handler.  The network, the context and the handler may change the world at every
  call.
\<close>

record ('w, 'b) env =
  lib :: "'b jsonlib"
  url_error :: "string \<Rightarrow> error option"
  http_do :: "request \<Rightarrow> 'w \<Rightarrow> error option \<times> 'w"
  scan :: "'w \<Rightarrow> string option \<times> 'w"
  scan_err :: "'w \<Rightarrow> error option"
  ctx_done :: "'w \<Rightarrow> bool"
  parseEvent :: "string \<Rightarrow> error + 'b sse_event"
  handler :: "'b \<Rightarrow> 'w \<Rightarrow> error option \<times> 'w"

text \<open>
  What a run does, in order: the requests it sends, the cancellation it observes, the
  frames \<open>parseEvent\<close> rejects, the handler calls with their results, and the end of
  each response body with the scanner's error.
\<close>

datatype 'b obs =
    Request request
  | Cancelled
  | FrameError string error
  | Delivered 'b "error option"
  | BodyEnd "error option"

datatype 'b scanned =
    Ret "error option"
  | Exhausted "'b option"
  | ScanPending

text \<open>
  The loop \<open>for scanner.Scan() { ... }\<close>, with \<open>objectBytes\<close> as an argument (\<open>None\<close> is
  the nil slice).  The first argument bounds the number of frames pulled; a body that
  has more gives \<open>ScanPending\<close>.
\<close>

fun scan_loop ::
  "('w, 'b) env \<Rightarrow> nat \<Rightarrow> 'b option \<Rightarrow> 'w \<Rightarrow> 'b obs list \<times> 'w \<times> 'b scanned" where
  "scan_loop E 0 objectBytes w = ([], w, ScanPending)"
| "scan_loop E (Suc n) objectBytes w =
     (case scan E w of
        (None, w1) \<Rightarrow> ([], w1, Exhausted objectBytes)
      | (Some tok, w1) \<Rightarrow>
          if ctx_done E w1 then ([Cancelled], w1, Ret None)
          else if length tok = 0 then scan_loop E n objectBytes w1
          else
            (case parseEvent E tok of
               Inl err \<Rightarrow> ([FrameError tok err], w1, Ret (Some err))
             | Inr ev \<Rightarrow>
                 if Event ev \<noteq> ''message'' then scan_loop E n objectBytes w1
                 else
                   (case Data ev of
                      DataOther \<Rightarrow> ([], w1, Ret (Some (ErrorsNew ''Invalid ev.Data type'')))
                    | DataString d \<Rightarrow>
                        (case handler E d w1 of
                           (Some err, w2) \<Rightarrow> ([Delivered d (Some err)], w2, Ret (Some err))
                         | (None, w2) \<Rightarrow>
                             (case scan_loop E n (Some d) w2 of
                                (tr, w3, r) \<Rightarrow> (Delivered d None # tr, w3, r)))
                    | DataBytes d \<Rightarrow>
                        (case handler E d w1 of
                           (Some err, w2) \<Rightarrow> ([Delivered d (Some err)], w2, Ret (Some err))
                         | (None, w2) \<Rightarrow>
                             (case scan_loop E n (Some d) w2 of
                                (tr, w3, r) \<Rightarrow> (Delivered d None # tr, w3, r))))))"

text \<open>The anonymous struct \<open>object\<close> read from \<open>objectBytes\<close> at the end of a body.\<close>

definition object_struct :: "field list" where
  "object_struct = [(''PT'', ''paging_token'', KString)]"

datatype outcome = Returned "error option" | Running

text \<open>
  The outer \<open>for { ... }\<close> of \<open>stream\<close>, with \<open>query\<close> as an argument.  The first
  argument bounds the number of connections and, on each, the number of frames; a run
  that needs more gives \<open>Running\<close>.
\<close>

fun stream_loop ::
  "('w, 'b) env \<Rightarrow> nat \<Rightarrow> string \<Rightarrow> Values \<Rightarrow> 'w \<Rightarrow> 'b obs list \<times> 'w \<times> outcome" where
  "stream_loop E 0 baseURL query w = ([], w, Running)"
| "stream_loop E (Suc n) baseURL query w =
     (case NewRequest (url_error E) ''GET'' (baseURL @ ''?'' @ Encode query) of
        Inl err \<Rightarrow> ([], w, Returned (Some err))
      | Inr req0 \<Rightarrow>
          (let req = req0\<lparr>req_header := Header_Set (req_header req0) ''Accept'' ''text/event-stream''\<rparr>
           in case http_do E req w of
             (Some err, w1) \<Rightarrow> ([Request req], w1, Returned (Some err))
           | (None, w1) \<Rightarrow>
               (case scan_loop E n None w1 of
                  (tr, w2, ScanPending) \<Rightarrow> (Request req # tr, w2, Running)
                | (tr, w2, Ret r) \<Rightarrow> (Request req # tr, w2, Returned r)
                | (tr, w2, Exhausted objectBytes) \<Rightarrow>
                    (let err = scan_err E w2 in
                     if err = None \<or> err = Some ErrUnexpectedEOF then
                       (case Unmarshal (lib E) objectBytes object_struct of
                          (object, Some err') \<Rightarrow>
                            (Request req # tr @ [BodyEnd err], w2,
                             Returned (Some (ErrorsWrap err' ''error unmarshaling objectBytes'')))
                        | (object, None) \<Rightarrow>
                            if string_field object ''PT'' \<noteq> [] then
                              (case stream_loop E n baseURL
                                      (Values_Set query ''cursor'' (string_field object ''PT'')) w2 of
                                 (tr', w3, out) \<Rightarrow> (Request req # tr @ BodyEnd err # tr', w3, out))
                            else
                              (Request req # tr @ [BodyEnd err], w2,
                               Returned (Some (ErrorsNew
                                 ''no paging_token in object: cannot continue''))))
                     else (Request req # tr @ [BodyEnd err], w2, Returned err)))))"

text \<open>
  \<open>stream\<close>: the query starts empty and gets the cursor when the caller passes one
  (\<open>cursor != nil\<close>).
\<close>

definition stream ::
  "('w, 'b) env \<Rightarrow> nat \<Rightarrow> string \<Rightarrow> string option \<Rightarrow> 'w \<Rightarrow> 'b obs list \<times> 'w \<times> outcome" where
  "stream E n baseURL cursor w =
     stream_loop E n baseURL
       (case cursor of None \<Rightarrow> [] | Some c \<Rightarrow> Values_Set [] ''cursor'' c) w"

subsection \<open>A scripted world\<close>

text \<open>
  A world for running the loop on examples: the connections still to come, each a list
  of frames and the scanner's error at its end, the rest of the current body, and the
  context.  A frame is its own paging token; the frame \<open>bad\<close> does not parse, \<open>ping\<close> is
  an event that is no message, \<open>nopt\<close> is a record without a paging token.  The handler
  fails on the record \<open>boom\<close> and cancels the context on the record \<open>stop\<close>.
\<close>

record world =
  conns :: "(string list \<times> error option) list"
  body :: "string list"
  body_err :: "error option"
  cancelled :: bool

definition sample_record :: "string \<Rightarrow> json" where
  "sample_record s =
     (if s = ''nopt'' then JObject [(''id'', JString ''1'')]
      else JObject [(''id'', JString ''1''), (''paging_token'', JString s)])"

definition sample_env :: "(world, json) env" where
  "sample_env =
     \<lparr>lib = sample_lib,
      url_error = (\<lambda>u. None),
      http_do = (\<lambda>r w. case conns w of
                   [] \<Rightarrow> (Some (Foreign ''connection refused''), w)
                 | (fs, e) # cs \<Rightarrow> (None, w\<lparr>conns := cs, body := fs, body_err := e\<rparr>)),
      scan = (\<lambda>w. case body w of
                [] \<Rightarrow> (None, w)
              | f # fs \<Rightarrow> (Some f, w\<lparr>body := fs\<rparr>)),
      scan_err = body_err,
      ctx_done = cancelled,
      parseEvent = (\<lambda>f. if f = ''bad'' then Inl (Foreign ''malformed frame'')
                         else if f = ''ping'' then Inr \<lparr>Event = ''ping'', Data = DataOther\<rparr>
                         else Inr \<lparr>Event = ''message'', Data = DataString (sample_record f)\<rparr>),
      handler = (\<lambda>d w. if d = sample_record ''boom'' then (Some (Foreign ''handler failed''), w)
                        else if d = sample_record ''stop'' then (None, w\<lparr>cancelled := True\<rparr>)
                        else (None, w))\<rparr>"

definition script :: "(string list \<times> error option) list \<Rightarrow> world" where
  "script cs = \<lparr>conns = cs, body = [], body_err = None, cancelled = False\<rparr>"

section \<open>Notions the properties are stated with\<close>

subsection \<open>The type string of a payload\<close>






subsection \<open>Reading a run\<close>

text \<open>
  The observations after which the loop returns, with the value it returns: an
  observed cancellation (nil), a frame that does not parse, a handler error, and a
  scanner error other than \<open>io.ErrUnexpectedEOF\<close>.
\<close>

fun final_of :: "'b obs \<Rightarrow> error option option" where
  "final_of Cancelled = Some None"
| "final_of (FrameError tok e) = Some (Some e)"
| "final_of (Delivered d (Some e)) = Some (Some e)"
| "final_of (BodyEnd (Some e)) = (if e = ErrUnexpectedEOF then None else Some (Some e))"
| "final_of x = None"

text \<open>The record most recently given to the handler, starting from \<open>ld\<close>.\<close>

fun delivered_after :: "'b option \<Rightarrow> 'b obs list \<Rightarrow> 'b option" where
  "delivered_after ld [] = ld"
| "delivered_after ld (Delivered d e # tr) = delivered_after (Some d) tr"
| "delivered_after ld (x # tr) = delivered_after ld tr"

text \<open>
  The variable \<open>objectBytes\<close>: declared anew (nil) on every connection, set at every
  handler call.
\<close>

fun objectBytes_after :: "'b option \<Rightarrow> 'b obs list \<Rightarrow> 'b option" where
  "objectBytes_after ob [] = ob"
| "objectBytes_after ob (Request r # tr) = objectBytes_after None tr"
| "objectBytes_after ob (Delivered d e # tr) = objectBytes_after (Some d) tr"
| "objectBytes_after ob (x # tr) = objectBytes_after ob tr"

text \<open>The number of requests sent.\<close>

fun requests_sent :: "'b obs list \<Rightarrow> nat" where
  "requests_sent [] = 0"
| "requests_sent (Request r # tr) = Suc (requests_sent tr)"
| "requests_sent (x # tr) = requests_sent tr"

text \<open>The query holds at most the key \<open>cursor\<close>, with one value.\<close>

definition cursor_only :: "Values \<Rightarrow> bool" where
  "cursor_only q \<longleftrightarrow> q = [] \<or> (\<exists>c. q = [(''cursor'', [c])])"

text \<open>The request of one iteration, for the query \<open>q\<close>.\<close>

definition stream_request :: "string \<Rightarrow> Values \<Rightarrow> request" where
  "stream_request baseURL q =
     \<lparr>req_method = ''GET'', req_url = baseURL @ ''?'' @ Encode q,
      req_header = [(''Accept'', ''text/event-stream'')]\<rparr>"

text \<open>
  What follows the end of a body whose scanner error is nil or
  \<open>io.ErrUnexpectedEOF\<close>, given the result \<open>um\<close> of decoding \<open>objectBytes\<close>: the run
  returns the decoding error, or returns for want of a paging token, or goes on with
  the request for that token; the run is cut there when the bound \<open>n\<close> on connections
  is used up, and returns when the URL of the new request does not parse.
\<close>

definition after_body_end ::
  "('w, 'b) env \<Rightarrow> nat \<Rightarrow> string \<Rightarrow> 'b obs list \<Rightarrow> gval \<times> error option \<Rightarrow>
     'b obs list \<Rightarrow> outcome \<Rightarrow> bool" where
  "after_body_end E n baseURL pre um post out \<longleftrightarrow>
     (case um of
        (obj, Some e) \<Rightarrow>
          post = [] \<and> out = Returned (Some (ErrorsWrap e ''error unmarshaling objectBytes''))
      | (obj, None) \<Rightarrow>
          if string_field obj ''PT'' = [] then
            post = [] \<and>
            out = Returned (Some (ErrorsNew ''no paging_token in object: cannot continue''))
          else
            (\<exists>post'. post =
               Request (stream_request baseURL [(''cursor'', [string_field obj ''PT''])]) # post') \<or>
            post = [] \<and> out = Running \<and> requests_sent pre = n \<or>
            post = [] \<and>
            (\<exists>e. url_error E (baseURL @ ''?'' @ Encode [(''cursor'', [string_field obj ''PT''])])
                    = Some e \<and> out = Returned (Some e)))"

subsection \<open>Sample documents\<close>



definition sample_thresholds_effect :: json where
  "sample_thresholds_effect =
     JObject [(''id'', JString ''0000000012884905985-0000000002''),
              (''paging_token'', JString ''12884905985-2''),
              (''type'', JString ''account_thresholds_updated''),
              (''type_i'', JInt 4),
              (''low_threshold'', JInt 1),
              (''med_threshold'', JInt 2),
              (''high_threshold'', JInt 3)]"

subsection \<open>Sample runs\<close>

definition sample_get :: "string \<Rightarrow> request" where
  "sample_get u =
     \<lparr>req_method = ''GET'', req_url = u, req_header = [(''Accept'', ''text/event-stream'')]\<rparr>"

text \<open>
  Two connections: the first gives two records, an event that is no message and an
  empty frame, and is lost; the second gives one record and ends with another error.
\<close>

definition reconnect_script :: world where
  "reconnect_script =
     script [([''1'', ''ping'', [], ''2''], Some ErrUnexpectedEOF), ([''3''], Some (Foreign ''tls''))]"

section \<open>Lemmas on the decoders\<close>





















section \<open>Lemmas on the stream loop\<close>

lemma append_Cons_split:
  "pre @ x # post = xs @ y # ys \<Longrightarrow>
     (\<exists>us. xs = pre @ x # us \<and> post = us @ y # ys) \<or>
     (pre = xs \<and> x = y \<and> post = ys) \<or>
     (\<exists>us. pre = xs @ y # us \<and> ys = us @ x # post)"
  by (auto simp: append_eq_append_conv2 Cons_eq_append_conv append_eq_Cons_conv)

lemma delivered_after_append:
  "delivered_after ld (xs @ ys) = delivered_after (delivered_after ld xs) ys"
  by (induction ld xs rule: delivered_after.induct) auto

lemma objectBytes_after_append:
  "objectBytes_after ob (xs @ ys) = objectBytes_after (objectBytes_after ob xs) ys"
  by (induction ob xs rule: objectBytes_after.induct) auto

lemma cursor_only_Set: "cursor_only q \<Longrightarrow> Values_Set q ''cursor'' c = [(''cursor'', [c])]"
  by (auto simp: cursor_only_def)

lemma QueryEscape_cursor: "QueryEscape ''cursor'' = ''cursor''"
  by (simp add: QueryEscape_def shouldEscape_def)

lemma Encode_cursor: "Encode [(''cursor'', [c])] = ''cursor='' @ QueryEscape c"
  by (simp add: Encode_def QueryEscape_cursor)

lemma Encode_empty: "Encode [] = []"
  by (simp add: Encode_def)

lemma scan_loop_obs:
  "scan_loop E n ob w = (tr, w', r) \<Longrightarrow> x \<in> set tr \<Longrightarrow>
     (\<exists>d e. x = Delivered d e) \<or> x = Cancelled \<or> (\<exists>t e. x = FrameError t e)"
proof (induction n arbitrary: ob w tr)
  case 0
  then show ?case by simp
next
  case (Suc n)
  from Suc.prems show ?case
    by (auto split: prod.splits option.splits if_splits sum.splits evdata.splits
             dest: Suc.IH)
qed

lemma scan_loop_final:
  "scan_loop E n ob w = (tr, w', r) \<Longrightarrow> tr = pre @ x # post \<Longrightarrow> final_of x = Some res \<Longrightarrow>
     post = [] \<and> r = Ret res"
proof (induction n arbitrary: ob w tr pre)
  case 0
  then show ?case by simp
next
  case (Suc n)
  from Suc.prems show ?case
    by (auto split: prod.splits option.splits if_splits sum.splits evdata.splits
             simp: Cons_eq_append_conv dest: Suc.IH)
qed

lemma scan_loop_objectBytes:
  "scan_loop E n ob w = (tr, w', Exhausted ob') \<Longrightarrow> ob' = delivered_after ob tr"
proof (induction n arbitrary: ob w tr)
  case 0
  then show ?case by simp
next
  case (Suc n)
  from Suc.prems show ?case
    by (auto split: prod.splits option.splits if_splits sum.splits evdata.splits
             dest: Suc.IH)
qed

lemma no_request_objectBytes:
  "\<forall>r. Request r \<notin> set tr \<Longrightarrow> objectBytes_after ob tr = delivered_after ob tr"
  by (induction ob tr rule: objectBytes_after.induct) auto


lemma delivered_after_Some:
  "delivered_after None xs = Some d \<Longrightarrow> delivered_after ld xs = Some d"
proof (induction xs arbitrary: ld)
  case Nil
  then show ?case by simp
next
  case (Cons x xs)
  then show ?case
    by (cases x) (simp_all add: delivered_after_append)
qed

lemma Unmarshal_None: "Unmarshal L None fs = (v, e) \<Longrightarrow> e \<noteq> None"
  by (auto simp: Unmarshal_def Let_def)

lemma stream_loop_Suc_cases:
  assumes "stream_loop E (Suc n) baseURL q w = (tr, w', out)"
  obtains
    (bad_url) e where "url_error E (baseURL @ ''?'' @ Encode q) = Some e"
      "tr = []" "out = Returned (Some e)"
  | (refused) e where "http_do E (stream_request baseURL q) w = (Some e, w')"
      "tr = [Request (stream_request baseURL q)]" "out = Returned (Some e)"
  | (pending) w1 tr0 where "scan_loop E n None w1 = (tr0, w', ScanPending)"
      "tr = Request (stream_request baseURL q) # tr0" "out = Running"
  | (ret) w1 tr0 r where "scan_loop E n None w1 = (tr0, w', Ret r)"
      "tr = Request (stream_request baseURL q) # tr0" "out = Returned r"
  | (fatal) w1 tr0 ob e where "scan_loop E n None w1 = (tr0, w', Exhausted ob)"
      "scan_err E w' = Some e" "e \<noteq> ErrUnexpectedEOF"
      "tr = Request (stream_request baseURL q) # tr0 @ [BodyEnd (Some e)]"
      "out = Returned (Some e)"
  | (undecodable) w1 tr0 ob obj e where "scan_loop E n None w1 = (tr0, w', Exhausted ob)"
      "scan_err E w' = None \<or> scan_err E w' = Some ErrUnexpectedEOF"
      "Unmarshal (lib E) ob object_struct = (obj, Some e)"
      "tr = Request (stream_request baseURL q) # tr0 @ [BodyEnd (scan_err E w')]"
      "out = Returned (Some (ErrorsWrap e ''error unmarshaling objectBytes''))"
  | (no_token) w1 tr0 ob obj where "scan_loop E n None w1 = (tr0, w', Exhausted ob)"
      "scan_err E w' = None \<or> scan_err E w' = Some ErrUnexpectedEOF"
      "Unmarshal (lib E) ob object_struct = (obj, None)"
      "string_field obj ''PT'' = []"
      "tr = Request (stream_request baseURL q) # tr0 @ [BodyEnd (scan_err E w')]"
      "out = Returned (Some (ErrorsNew ''no paging_token in object: cannot continue''))"
  | (resume) w1 w2 tr0 ob obj tr1 where "scan_loop E n None w1 = (tr0, w2, Exhausted ob)"
      "scan_err E w2 = None \<or> scan_err E w2 = Some ErrUnexpectedEOF"
      "Unmarshal (lib E) ob object_struct = (obj, None)"
      "string_field obj ''PT'' \<noteq> []"
      "stream_loop E n baseURL (Values_Set q ''cursor'' (string_field obj ''PT'')) w2 = (tr1, w', out)"
      "tr = Request (stream_request baseURL q) # tr0 @ BodyEnd (scan_err E w2) # tr1"
proof (cases "url_error E (baseURL @ ''?'' @ Encode q)")
  case (Some e)
  with assms show ?thesis
    by (intro bad_url[of e]) (auto simp: NewRequest_def)
next
  case None
  note url = None
  obtain he w1 where h: "http_do E (stream_request baseURL q) w = (he, w1)"
    by (cases "http_do E (stream_request baseURL q) w")
  show ?thesis
  proof (cases he)
    case (Some e)
    with assms url h show ?thesis
      by (intro refused[of e]) (auto simp: NewRequest_def stream_request_def)
  next
    case None
    note he = None
    obtain tr0 w2 r where sc: "scan_loop E n None w1 = (tr0, w2, r)"
      by (cases "scan_loop E n None w1") auto
    show ?thesis
    proof (cases r)
      case (Ret x)
      with assms url h he sc show ?thesis
        by (intro ret[of w1 tr0 x]) (auto simp: NewRequest_def stream_request_def)
    next
      case ScanPending
      with assms url h he sc show ?thesis
        by (intro pending[of w1 tr0]) (auto simp: NewRequest_def stream_request_def)
    next
      case (Exhausted ob)
      note r = Exhausted
      from assms url h he sc r have unf:
        "stream_loop E (Suc n) baseURL q w = (tr, w', out)"
        "url_error E (baseURL @ ''?'' @ Encode q) = None"
        "http_do E \<lparr>req_method = ''GET'', req_url = baseURL @ ''?'' @ Encode q,
            req_header = [(''Accept'', ''text/event-stream'')]\<rparr> w = (None, w1)"
        "scan_loop E n None w1 = (tr0, w2, Exhausted ob)"
        by (simp_all add: stream_request_def)
      show ?thesis
      proof (cases "scan_err E w2 = None \<or> scan_err E w2 = Some ErrUnexpectedEOF")
        case False
        then obtain e where e: "scan_err E w2 = Some e" "e \<noteq> ErrUnexpectedEOF"
          by (cases "scan_err E w2") auto
        with unf sc r show ?thesis
          by (intro fatal[of w1 tr0 ob e]) (auto simp: Let_def NewRequest_def stream_request_def)
      next
        case True
        note ok = True
        obtain obj ue where um: "Unmarshal (lib E) ob object_struct = (obj, ue)"
          by (cases "Unmarshal (lib E) ob object_struct")
        show ?thesis
        proof (cases ue)
          case (Some e)
          with unf sc r ok um show ?thesis
            by (intro undecodable[of w1 tr0 ob obj e]) (auto simp: Let_def NewRequest_def stream_request_def)
        next
          case None
          note ue = None
          show ?thesis
          proof (cases "string_field obj ''PT'' = []")
            case True
            with unf sc r ok um ue show ?thesis
              by (intro no_token[of w1 tr0 ob obj]) (auto simp: Let_def NewRequest_def stream_request_def)
          next
            case False
            obtain tr1 w3 out1 where rec:
              "stream_loop E n baseURL (Values_Set q ''cursor'' (string_field obj ''PT'')) w2 =
                 (tr1, w3, out1)"
              by (cases "stream_loop E n baseURL
                           (Values_Set q ''cursor'' (string_field obj ''PT'')) w2") auto
            with unf sc r ok um ue False show ?thesis
              by (intro resume[of w1 tr0 w2 ob obj tr1]) (auto simp: Let_def NewRequest_def stream_request_def)
          qed
        qed
      qed
    qed
  qed
qed

lemma stream_loop_first:
  "stream_loop E n baseURL q w = (x # rest, w', out) \<Longrightarrow> x = Request (stream_request baseURL q)"
proof (cases n)
  case 0
  assume "stream_loop E n baseURL q w = (x # rest, w', out)"
  with 0 show ?thesis by simp
next
  case (Suc m)
  assume "stream_loop E n baseURL q w = (x # rest, w', out)"
  with Suc have "stream_loop E (Suc m) baseURL q w = (x # rest, w', out)" by simp
  then show ?thesis
    by (cases rule: stream_loop_Suc_cases) auto
qed

lemma stream_loop_empty:
  "stream_loop E n baseURL q w = ([], w', out) \<Longrightarrow>
     n = 0 \<and> out = Running \<or>
     (\<exists>e. url_error E (baseURL @ ''?'' @ Encode q) = Some e \<and> out = Returned (Some e))"
proof (cases n)
  case 0
  assume "stream_loop E n baseURL q w = ([], w', out)"
  with 0 show ?thesis by simp
next
  case (Suc m)
  assume "stream_loop E n baseURL q w = ([], w', out)"
  with Suc have "stream_loop E (Suc m) baseURL q w = ([], w', out)" by simp
  then show ?thesis
    by (cases rule: stream_loop_Suc_cases) auto
qed


lemma scan_loop_no_request: "scan_loop E n ob w = (tr, w', r) \<Longrightarrow> Request x \<notin> set tr"
  using scan_loop_obs[of E n ob w tr w' r "Request x"] by auto

lemma scan_loop_no_body_end: "scan_loop E n ob w = (tr, w', r) \<Longrightarrow> BodyEnd x \<notin> set tr"
  using scan_loop_obs[of E n ob w tr w' r "BodyEnd x"] by auto

lemma scan_loop_not_final:
  assumes "scan_loop E n ob w = (tr, w', r)" and "\<forall>res. r \<noteq> Ret res" and "x \<in> set tr"
  shows "final_of x = None"
proof (cases "final_of x")
  case None
  then show ?thesis .
next
  case (Some res)
  from assms(3) obtain pre post where "tr = pre @ x # post"
    by (auto simp: in_set_conv_decomp)
  from scan_loop_final[OF assms(1) this Some] assms(2) show ?thesis by simp
qed

lemma stream_loop_final:
  "stream_loop E n baseURL q w = (tr, w', out) \<Longrightarrow> tr = pre @ x # post \<Longrightarrow>
   final_of x = Some res \<Longrightarrow> post = [] \<and> out = Returned res"
proof (induction n arbitrary: q w tr w' out pre)
  case 0
  then show ?case by simp
next
  case (Suc n)
  from Suc.prems(1) show ?case
  proof (cases rule: stream_loop_Suc_cases)
    case (bad_url e)
    with Suc.prems show ?thesis by simp
  next
    case (refused e)
    with Suc.prems show ?thesis by (auto simp: Cons_eq_append_conv)
  next
    case (pending w1 tr0)
    with Suc.prems(2,3) obtain pre1 where "tr0 = pre1 @ x # post"
      by (auto simp: Cons_eq_append_conv)
    from scan_loop_final[OF pending(1) this Suc.prems(3)] show ?thesis by simp
  next
    case (ret w1 tr0 r)
    with Suc.prems(2,3) obtain pre1 where "tr0 = pre1 @ x # post"
      by (auto simp: Cons_eq_append_conv)
    from scan_loop_final[OF ret(1) this Suc.prems(3)] ret(3) show ?thesis by simp
  next
    case (fatal w1 tr0 ob e)
    with Suc.prems(2,3) obtain pre1 where p: "pre1 @ x # post = tr0 @ BodyEnd (Some e) # []"
      by (auto simp: Cons_eq_append_conv)
    have nf: "\<And>y. y \<in> set tr0 \<Longrightarrow> final_of y = None"
      using scan_loop_not_final[OF fatal(1)] by simp
    from append_Cons_split[OF p] nf Suc.prems(3) fatal show ?thesis by auto
  next
    case (undecodable w1 tr0 ob obj e)
    with Suc.prems(2,3) obtain pre1 where
      p: "pre1 @ x # post = tr0 @ BodyEnd (scan_err E w') # []"
      by (auto simp: Cons_eq_append_conv)
    have nf: "\<And>y. y \<in> set tr0 \<Longrightarrow> final_of y = None"
      using scan_loop_not_final[OF undecodable(1)] by simp
    from append_Cons_split[OF p] nf Suc.prems(3) undecodable show ?thesis by auto
  next
    case (no_token w1 tr0 ob obj)
    with Suc.prems(2,3) obtain pre1 where
      p: "pre1 @ x # post = tr0 @ BodyEnd (scan_err E w') # []"
      by (auto simp: Cons_eq_append_conv)
    have nf: "\<And>y. y \<in> set tr0 \<Longrightarrow> final_of y = None"
      using scan_loop_not_final[OF no_token(1)] by simp
    from append_Cons_split[OF p] nf Suc.prems(3) no_token show ?thesis by auto
  next
    case (resume w1 w2 tr0 ob obj tr1)
    with Suc.prems(2,3) obtain pre1 where
      p: "pre1 @ x # post = tr0 @ BodyEnd (scan_err E w2) # tr1"
      by (auto simp: Cons_eq_append_conv)
    have nf: "\<And>y. y \<in> set tr0 \<Longrightarrow> final_of y = None"
      using scan_loop_not_final[OF resume(1)] by simp
    from append_Cons_split[OF p] show ?thesis
    proof (elim disjE exE conjE)
      fix us assume "tr0 = pre1 @ x # us"
      with nf[of x] Suc.prems(3) show ?thesis by simp
    next
      assume "x = BodyEnd (scan_err E w2)"
      with resume(2) Suc.prems(3) show ?thesis by auto
    next
      fix us assume "tr1 = us @ x # post"
      from Suc.IH[OF resume(5) this Suc.prems(3)] show ?thesis .
    qed
  qed
qed

lemma objectBytes_after_Request:
  "objectBytes_after ob (xs @ Request r # ys) = objectBytes_after None ys"
  by (simp add: objectBytes_after_append)

lemma stream_loop_reconnect:
  "stream_loop E n baseURL q w = (tr, w', out) \<Longrightarrow> tr = pre @ Request r # post \<Longrightarrow>
   pre \<noteq> [] \<Longrightarrow> cursor_only q \<Longrightarrow>
     \<exists>pre' err d obj.
        pre = pre' @ [BodyEnd err] \<and> (err = None \<or> err = Some ErrUnexpectedEOF) \<and>
        delivered_after None pre = Some d \<and>
        Unmarshal (lib E) (Some d) object_struct = (obj, None) \<and>
        string_field obj ''PT'' \<noteq> [] \<and>
        r = stream_request baseURL [(''cursor'', [string_field obj ''PT''])]"
proof (induction n arbitrary: q w tr w' out pre)
  case 0
  then show ?case by simp
next
  case (Suc n)
  from Suc.prems(1) show ?case
  proof (cases rule: stream_loop_Suc_cases)
    case (bad_url e)
    with Suc.prems show ?thesis by simp
  next
    case (refused e)
    with Suc.prems show ?thesis by (auto simp: Cons_eq_append_conv)
  next
    case (pending w1 tr0)
    with Suc.prems(2,3) have "Request r \<in> set tr0"
      by (auto simp: Cons_eq_append_conv)
    with scan_loop_no_request[OF pending(1)] show ?thesis by simp
  next
    case (ret w1 tr0 r')
    with Suc.prems(2,3) have "Request r \<in> set tr0"
      by (auto simp: Cons_eq_append_conv)
    with scan_loop_no_request[OF ret(1)] show ?thesis by simp
  next
    case (fatal w1 tr0 ob e)
    with Suc.prems(2,3) obtain pre1 where
      p: "pre1 @ Request r # post = tr0 @ BodyEnd (Some e) # []"
      by (auto simp: Cons_eq_append_conv)
    from append_Cons_split[OF p] scan_loop_no_request[OF fatal(1), of r] show ?thesis by auto
  next
    case (undecodable w1 tr0 ob obj e)
    with Suc.prems(2,3) obtain pre1 where
      p: "pre1 @ Request r # post = tr0 @ BodyEnd (scan_err E w') # []"
      by (auto simp: Cons_eq_append_conv)
    from append_Cons_split[OF p] scan_loop_no_request[OF undecodable(1), of r]
    show ?thesis by auto
  next
    case (no_token w1 tr0 ob obj)
    with Suc.prems(2,3) obtain pre1 where
      p: "pre1 @ Request r # post = tr0 @ BodyEnd (scan_err E w') # []"
      by (auto simp: Cons_eq_append_conv)
    from append_Cons_split[OF p] scan_loop_no_request[OF no_token(1), of r]
    show ?thesis by auto
  next
    case (resume w1 w2 tr0 ob obj tr1)
    let ?req = "Request (stream_request baseURL q)"
    let ?pt = "string_field obj ''PT''"
    from resume(6) Suc.prems(2,3) obtain pre1 where
      pre: "pre = ?req # pre1" and
      p: "pre1 @ Request r # post = tr0 @ BodyEnd (scan_err E w2) # tr1"
      by (cases pre) auto
    have q': "Values_Set q ''cursor'' ?pt = [(''cursor'', [?pt])]"
      using cursor_only_Set[OF Suc.prems(4)] .
    have co: "cursor_only (Values_Set q ''cursor'' ?pt)"
      unfolding q' by (simp add: cursor_only_def)
    from append_Cons_split[OF p] scan_loop_no_request[OF resume(1), of r]
    obtain us where us: "pre1 = tr0 @ BodyEnd (scan_err E w2) # us" "tr1 = us @ Request r # post"
      by auto
    show ?thesis
    proof (cases "us = []")
      case True
      with us(2) resume(5) have r: "Request r = Request (stream_request baseURL
            (Values_Set q ''cursor'' ?pt))"
        using stream_loop_first by fastforce
      have ob: "ob = delivered_after None tr0"
        using scan_loop_objectBytes[OF resume(1)] .
      from resume(3) Unmarshal_None[of "lib E" object_struct obj None] obtain d where
        d: "ob = Some d" by (cases ob) auto
      have "delivered_after None pre = Some d"
        using pre us(1) True ob d by (simp add: delivered_after_append)
      moreover have "pre = (?req # tr0) @ [BodyEnd (scan_err E w2)]"
        using pre us(1) True by simp
      ultimately show ?thesis
        using resume(2,3,4) d r q' by auto
    next
      case False
      from Suc.IH[OF resume(5) us(2) False co] obtain pre' err d obj' where
        ih: "us = pre' @ [BodyEnd err]" "err = None \<or> err = Some ErrUnexpectedEOF"
            "delivered_after None us = Some d"
            "Unmarshal (lib E) (Some d) object_struct = (obj', None)"
            "string_field obj' ''PT'' \<noteq> []"
            "r = stream_request baseURL [(''cursor'', [string_field obj' ''PT''])]"
        by blast
      have "delivered_after None pre = Some d"
        using pre us(1) delivered_after_Some[OF ih(3)]
        by (simp add: delivered_after_append)
      moreover have "pre = (?req # tr0 @ BodyEnd (scan_err E w2) # pre') @ [BodyEnd err]"
        using pre us(1) ih(1) by simp
      ultimately show ?thesis using ih(2,4,5,6) by blast
    qed
  qed
qed


lemma requests_sent_append: "requests_sent (xs @ ys) = requests_sent xs + requests_sent ys"
  by (induction xs rule: requests_sent.induct) auto

lemma no_request_requests_sent: "\<forall>r. Request r \<notin> set tr \<Longrightarrow> requests_sent tr = 0"
  by (induction tr rule: requests_sent.induct) auto

lemma after_body_end_Suc:
  "after_body_end E n baseURL us um post out \<Longrightarrow> requests_sent pre = Suc (requests_sent us) \<Longrightarrow>
     after_body_end E (Suc n) baseURL pre um post out"
  by (auto simp: after_body_end_def split: prod.splits option.splits if_splits)

lemma stream_loop_body_end:
  "stream_loop E n baseURL q w = (tr, w', out) \<Longrightarrow> tr = pre @ BodyEnd err # post \<Longrightarrow>
   err = None \<or> err = Some ErrUnexpectedEOF \<Longrightarrow> cursor_only q \<Longrightarrow>
     after_body_end E n baseURL pre
       (Unmarshal (lib E) (objectBytes_after None pre) object_struct) post out"
proof (induction n arbitrary: q w tr w' out pre)
  case 0
  then show ?case by simp
next
  case (Suc n)
  have here: "objectBytes_after None (Request rq # tr0) = ob"
    if "scan_loop E n None w1 = (tr0, w2, Exhausted ob)" for rq tr0 w1 w2 ob
    using scan_loop_objectBytes[OF that] scan_loop_no_request[OF that]
      no_request_objectBytes[of tr0 None] by simp
  from Suc.prems(1) show ?case
  proof (cases rule: stream_loop_Suc_cases)
    case (bad_url e)
    with Suc.prems show ?thesis by simp
  next
    case (refused e)
    with Suc.prems show ?thesis by (auto simp: Cons_eq_append_conv)
  next
    case (pending w1 tr0)
    with Suc.prems(2) have "BodyEnd err \<in> set tr0"
      by (auto simp: Cons_eq_append_conv)
    with scan_loop_no_body_end[OF pending(1)] show ?thesis by simp
  next
    case (ret w1 tr0 r')
    with Suc.prems(2) have "BodyEnd err \<in> set tr0"
      by (auto simp: Cons_eq_append_conv)
    with scan_loop_no_body_end[OF ret(1)] show ?thesis by simp
  next
    case (fatal w1 tr0 ob e)
    with Suc.prems(2) obtain pre1 where
      p: "pre1 @ BodyEnd err # post = tr0 @ BodyEnd (Some e) # []"
      by (cases pre) auto
    from append_Cons_split[OF p] scan_loop_no_body_end[OF fatal(1), of err] fatal(3) Suc.prems(3)
    show ?thesis by auto
  next
    case (undecodable w1 tr0 ob obj e)
    with Suc.prems(2) obtain pre1 where
      pre: "pre = Request (stream_request baseURL q) # pre1" and
      p: "pre1 @ BodyEnd err # post = tr0 @ BodyEnd (scan_err E w') # []"
      by (cases pre) auto
    from append_Cons_split[OF p] scan_loop_no_body_end[OF undecodable(1), of err]
    have "pre1 = tr0" "post = []" by auto
    with pre here[OF undecodable(1)] undecodable(3,5) show ?thesis
      by (simp add: after_body_end_def)
  next
    case (no_token w1 tr0 ob obj)
    with Suc.prems(2) obtain pre1 where
      pre: "pre = Request (stream_request baseURL q) # pre1" and
      p: "pre1 @ BodyEnd err # post = tr0 @ BodyEnd (scan_err E w') # []"
      by (cases pre) auto
    from append_Cons_split[OF p] scan_loop_no_body_end[OF no_token(1), of err]
    have "pre1 = tr0" "post = []" by auto
    with pre here[OF no_token(1)] no_token(3,4,6) show ?thesis
      by (simp add: after_body_end_def)
  next
    case (resume w1 w2 tr0 ob obj tr1)
    let ?pt = "string_field obj ''PT''"
    from resume(6) Suc.prems(2) obtain pre1 where
      pre: "pre = Request (stream_request baseURL q) # pre1" and
      p: "pre1 @ BodyEnd err # post = tr0 @ BodyEnd (scan_err E w2) # tr1"
      by (cases pre) auto
    have q': "Values_Set q ''cursor'' ?pt = [(''cursor'', [?pt])]"
      using cursor_only_Set[OF Suc.prems(4)] .
    have co: "cursor_only (Values_Set q ''cursor'' ?pt)"
      unfolding q' by (simp add: cursor_only_def)
    from append_Cons_split[OF p] scan_loop_no_body_end[OF resume(1), of err]
    consider (now) "pre1 = tr0" "post = tr1"
      | (later) us where "pre1 = tr0 @ BodyEnd (scan_err E w2) # us" "tr1 = us @ BodyEnd err # post"
      by auto
    then show ?thesis
    proof cases
      case now
      have um: "Unmarshal (lib E) (objectBytes_after None pre) object_struct = (obj, None)"
        using pre now(1) here[OF resume(1)] resume(3) by simp
      have rs: "requests_sent pre = Suc 0"
        using pre now(1) no_request_requests_sent[of tr0] scan_loop_no_request[OF resume(1)]
        by simp
      show ?thesis
      proof (cases tr1)
        case Nil
        with stream_loop_empty[of E n baseURL "Values_Set q ''cursor'' ?pt" w2 w' out] resume(5)
        show ?thesis
          using um resume(4) now(2) q' rs by (auto simp: after_body_end_def)
      next
        case (Cons x rest)
        with stream_loop_first[of E n baseURL "Values_Set q ''cursor'' ?pt" w2 x rest w' out]
          resume(5)
        show ?thesis
          using um resume(4) now(2) q' by (auto simp: after_body_end_def)
      qed
    next
      case later
      have "us \<noteq> []"
      proof
        assume "us = []"
        with later(2) resume(5)
          stream_loop_first[of E n baseURL "Values_Set q ''cursor'' ?pt" w2 "BodyEnd err" post w' out]
        show False by simp
      qed
      then obtain x us' where us: "us = x # us'" by (cases us) auto
      with later(2) resume(5)
        stream_loop_first[of E n baseURL "Values_Set q ''cursor'' ?pt" w2 x "us' @ BodyEnd err # post" w' out]
      obtain r1 where x: "x = Request r1" by auto
      have ob: "objectBytes_after None pre = objectBytes_after None us"
        using pre later(1) us x by (simp add: objectBytes_after_append)
      have rs: "requests_sent pre = Suc (requests_sent us)"
        using pre later(1) no_request_requests_sent[of tr0] scan_loop_no_request[OF resume(1)]
        by (simp add: requests_sent_append)
      from after_body_end_Suc[OF Suc.IH[OF resume(5) later(2) Suc.prems(3) co] rs] ob
      show ?thesis by simp
    qed
  qed
qed


section \<open>Sample runs\<close>

lemma delivered_after_mem:
  "delivered_after ld xs = Some d \<Longrightarrow> ld = Some d \<or> (\<exists>e. Delivered d e \<in> set xs)"
  by (induction ld xs rule: delivered_after.induct) auto

lemma stream_query:
  "cursor_only (case cursor of None \<Rightarrow> [] | Some c \<Rightarrow> Values_Set [] ''cursor'' c)"
  by (cases cursor) (simp_all add: cursor_only_def)

lemma sample_run_reconnect:
  "stream sample_env 7 ''http://h/effects'' None reconnect_script =
     ([Request (sample_get ''http://h/effects?''),
       Delivered (sample_record ''1'') None,
       Delivered (sample_record ''2'') None,
       BodyEnd (Some ErrUnexpectedEOF),
       Request (sample_get ''http://h/effects?cursor=2''),
       Delivered (sample_record ''3'') None,
       BodyEnd (Some (Foreign ''tls''))],
      \<lparr>conns = [], body = [], body_err = Some (Foreign ''tls''), cancelled = False\<rparr>,
      Returned (Some (Foreign ''tls'')))"
  by code_simp

lemma sample_run_no_token:
  "stream sample_env 7 ''http://h/effects'' (Some ''c0'') (script [([''1'', ''nopt''], None), ([''4''], None)]) =
     ([Request (sample_get ''http://h/effects?cursor=c0''),
       Delivered (sample_record ''1'') None,
       Delivered (sample_record ''nopt'') None,
       BodyEnd None],
      \<lparr>conns = [([''4''], None)], body = [], body_err = None, cancelled = False\<rparr>,
      Returned (Some (ErrorsNew ''no paging_token in object: cannot continue'')))"
  by code_simp

lemma sample_run_handler_error:
  "stream sample_env 7 ''http://h/effects'' None (script [([''1'', ''boom'', ''3''], None), ([''4''], None)]) =
     ([Request (sample_get ''http://h/effects?''),
       Delivered (sample_record ''1'') None,
       Delivered (sample_record ''boom'') (Some (Foreign ''handler failed''))],
      \<lparr>conns = [([''4''], None)], body = [''3''], body_err = None, cancelled = False\<rparr>,
      Returned (Some (Foreign ''handler failed'')))"
  by code_simp

lemma sample_run_cancelled:
  "stream sample_env 7 ''http://h/effects'' None (script [([''1'', ''stop'', ''3''], None), ([''4''], None)]) =
     ([Request (sample_get ''http://h/effects?''),
       Delivered (sample_record ''1'') None,
       Delivered (sample_record ''stop'') None,
       Cancelled],
      \<lparr>conns = [([''4''], None)], body = [], body_err = None, cancelled = True\<rparr>,
      Returned None)"
  by code_simp

lemma sample_run_bad_frame:
  "stream sample_env 7 ''http://h/effects'' (Some ''7'') (script [([''bad'', ''8''], None), ([''9''], None)]) =
     ([Request (sample_get ''http://h/effects?cursor=7''),
       FrameError ''bad'' (Foreign ''malformed frame'')],
      \<lparr>conns = [([''9''], None)], body = [''8''], body_err = None, cancelled = False\<rparr>,
      Returned (Some (Foreign ''malformed frame'')))"
  by code_simp

section \<open>The decoders: properties\<close>

text \<open>
  C1, as stated: a payload whose discriminator is not in the table is decoded into a
  record tagged unknown, without failing.  The code fails: the effect type
  \<open>sequence_bumped\<close> is in no case of the switch, and \<open>UnmarshalEffect\<close> returns no
  effect and the error \<open>unknown effect type\<close>.
\<close>

theorem unknown_effect_type_fails:
  "map_of effect_cases ''sequence_bumped'' = None \<and>
   UnmarshalEffect sample_lib
     (JObject [(''id'', JString ''1''), (''type'', JString ''sequence_bumped'')]) =
     (None, Some (ErrorsErrorf ''unknown effect type %d'' [ArgString ''sequence_bumped'']))"
  by code_simp

text \<open>
  C1, amended: for every payload whose discriminator (the string \<open>type\<close> read by the
  first pass of \<open>UnmarshalEffect\<close>, the integer \<open>type_i\<close> read by the first pass of
  \<open>UnmarshalOperation\<close>) is in no case of the switch, the decoder returns no record
  and the error \<open>unknown effect type\<close>, respectively \<open>unknown operation type\<close>, with
  that discriminator.
\<close>

theorem unknown_discriminator_is_an_error:
  "(Unmarshal L (Some data) effectType_struct = (effectType, None) \<and>
    map_of effect_cases (string_field effectType ''Type'') = None \<longrightarrow>
      UnmarshalEffect L data =
        (None, Some (ErrorsErrorf ''unknown effect type %d''
                       [ArgString (string_field effectType ''Type'')]))) \<and>
   (Unmarshal L (Some data') opType_struct = (opType, None) \<and>
    map_of (operation_cases X) (int_field opType ''TypeI'') = None \<longrightarrow>
      UnmarshalOperation L X data' =
        (None, Some (ErrorsErrorf ''unknown operation type %d''
                       [ArgInt (int_field opType ''TypeI'')])))"
  by (simp add: UnmarshalEffect_def UnmarshalOperation_def)

text \<open>
  The amended C1 on an effect of type \<open>liquidity_pool_created\<close> and on an operation
  with \<open>type_i\<close> 11.
\<close>

theorem unknown_discriminator_is_an_error_witness:
  "UnmarshalEffect sample_lib (JObject [(''type'', JString ''liquidity_pool_created'')]) =
     (None, Some (ErrorsErrorf ''unknown effect type %d'' [ArgString ''liquidity_pool_created''])) \<and>
   UnmarshalOperation sample_lib sample_xdr
     (JObject [(''type'', JString ''bump_sequence''), (''type_i'', JInt 11)]) =
     (None, Some (ErrorsErrorf ''unknown operation type %d'' [ArgInt 11]))"
proof -
  let ?d = "JObject [(''type'', JString ''liquidity_pool_created'')]"
  let ?d' = "JObject [(''type'', JString ''bump_sequence''), (''type_i'', JInt 11)]"
  let ?et = "VStruct [(''Type'', VString ''liquidity_pool_created'')]"
  let ?ot = "VStruct [(''TypeI'', VInt 11)]"
  have 1: "Unmarshal sample_lib (Some ?d) effectType_struct = (?et, None)"
    by code_simp
  have 2: "map_of effect_cases (string_field ?et ''Type'') = None"
    by code_simp
  have 3: "Unmarshal sample_lib (Some ?d') opType_struct = (?ot, None)"
    by code_simp
  have 4: "map_of (operation_cases sample_xdr) (int_field ?ot ''TypeI'') = None"
    by code_simp
  have 5: "string_field ?et ''Type'' = ''liquidity_pool_created''" "int_field ?ot ''TypeI'' = 11"
    by code_simp+
  from unknown_discriminator_is_an_error[of sample_lib ?d ?et ?d' ?ot sample_xdr] 1 2 3 4
  show ?thesis unfolding 5 by blast
qed

text \<open>
  C2: for \<open>type\<close> equal to \<open>account_thresholds_updated\<close> the claim expects a value of
  the struct \<open>AccountThresholdsUpdatedEffect\<close>.  The case of the switch allocates an
  \<open>AccountCreatedEffect\<close>: the decoded effect has that type, a field
  \<open>StartingBalance\<close>, and none of the three thresholds of the payload.
\<close>

theorem thresholds_effect_is_decoded_as_account_created:
  "UnmarshalEffect sample_lib sample_thresholds_effect =
     (Some \<lparr>effect_struct_of = AccountCreatedEffect,
            effect_value =
              VStruct
               [(''LinksEffect'',
                 VStruct [(''Operation'', VNil), (''Succeeds'', VNil), (''Precedes'', VNil)]),
                (''ID'', VString ''0000000012884905985-0000000002''),
                (''PT'', VString ''12884905985-2''),
                (''Account'', VString []),
                (''Type'', VString ''account_thresholds_updated''),
                (''TypeI'', VInt 4),
                (''OperationID'', VString []),
                (''Order'', VInt 0),
                (''StartingBalance'', VString [])]\<rparr>,
      None)"
  by code_simp



section \<open>The stream loop: properties\<close>

text \<open>
  C3: in every run, a request that is not the first one (a reconnect) carries as
  cursor the paging token decoded from the record most recently given to the handler,
  and the handler had returned no error on that record.
\<close>

theorem reconnect_cursor_is_last_delivered_paging_token:
  assumes "stream E n baseURL cursor w = (tr, w', out)"
    and "tr = pre @ Request r # post"
    and "pre \<noteq> []"
  shows "\<exists>d obj.
           delivered_after None pre = Some d \<and>
           Delivered d None \<in> set pre \<and>
           Unmarshal (lib E) (Some d) object_struct = (obj, None) \<and>
           string_field obj ''PT'' \<noteq> [] \<and>
           req_url r = baseURL @ ''?cursor='' @ QueryEscape (string_field obj ''PT'')"
proof -
  from assms(1) have sl:
    "stream_loop E n baseURL (case cursor of None \<Rightarrow> [] | Some c \<Rightarrow> Values_Set [] ''cursor'' c) w =
       (tr, w', out)"
    by (simp add: stream_def)
  from stream_loop_reconnect[OF sl assms(2,3) stream_query] obtain pre' err d obj where
    f: "delivered_after None pre = Some d"
       "Unmarshal (lib E) (Some d) object_struct = (obj, None)"
       "string_field obj ''PT'' \<noteq> []"
       "r = stream_request baseURL [(''cursor'', [string_field obj ''PT''])]"
    by blast
  from delivered_after_mem[OF f(1)] obtain e where "Delivered d e \<in> set pre"
    by auto
  then obtain a b where ab: "pre = a @ Delivered d e # b"
    by (auto simp: in_set_conv_decomp)
  have "e = None"
  proof (cases e)
    case (Some x)
    from assms(2) ab have "tr = a @ Delivered d e # (b @ Request r # post)"
      by simp
    from stream_loop_final[OF sl this, of "Some x"] Some show ?thesis by simp
  qed simp
  with ab have "Delivered d None \<in> set pre" by simp
  moreover have "req_url r = baseURL @ ''?cursor='' @ QueryEscape (string_field obj ''PT'')"
    using f(4) by (simp add: stream_request_def Encode_cursor)
  ultimately show ?thesis using f(1,2,3) by blast
qed

text \<open>
  C3 on the sample run with a reconnect: the second request carries the paging token
  of the second record.
\<close>

theorem reconnect_cursor_is_last_delivered_paging_token_witness:
  "\<exists>d obj.
     delivered_after None
       [Request (sample_get ''http://h/effects?''), Delivered (sample_record ''1'') None,
        Delivered (sample_record ''2'') None, BodyEnd (Some ErrUnexpectedEOF)] = Some d \<and>
     Delivered d None \<in> set
       [Request (sample_get ''http://h/effects?''), Delivered (sample_record ''1'') None,
        Delivered (sample_record ''2'') None, BodyEnd (Some ErrUnexpectedEOF)] \<and>
     Unmarshal (lib sample_env) (Some d) object_struct = (obj, None) \<and>
     string_field obj ''PT'' \<noteq> [] \<and>
     req_url (sample_get ''http://h/effects?cursor=2'') =
       ''http://h/effects'' @ ''?cursor='' @ QueryEscape (string_field obj ''PT'')"
  by (rule reconnect_cursor_is_last_delivered_paging_token[OF sample_run_reconnect]) simp_all

text \<open>
  C4: when a body ends without a fatal error and the position is not empty, a start
  position of the caller included, the loop is to reconnect from it, as the comment in
  the loop says (start streaming from the next object if there was no error or if the
  connection was lost).  The code does not: with the start position \<open>c0\<close> and a first
  body that ends cleanly before any record, \<open>objectBytes\<close> is still nil, decoding it
  fails, and the run returns that error after one request, although the query still
  holds the cursor \<open>c0\<close>; the second connection is never asked for.
\<close>

theorem start_position_not_used_without_record:
  "stream sample_env 5 ''http://h/effects'' (Some ''c0'') (script [([], None), ([''1''], None)]) =
     ([Request (sample_get ''http://h/effects?cursor=c0''), BodyEnd None],
      \<lparr>conns = [([''1''], None)], body = [], body_err = None, cancelled = False\<rparr>,
      Returned (Some (ErrorsWrap (SyntaxError ''unexpected end of JSON input'')
                        ''error unmarshaling objectBytes'')))"
  by code_simp

text \<open>
  The end of a body after a record.  When a body ends with the scanner error nil or
  \<open>io.ErrUnexpectedEOF\<close>, after at least one record was given to the handler on that
  connection, and the last such record decodes: if its paging token is not empty, the
  next thing the run does is the request with that token as cursor (the run is cut
  there when the bound on connections is used up, and returns when the URL of that
  request does not parse); if its paging token is empty, the run returns the error
  \<open>no paging_token in object: cannot continue\<close> and does nothing more.
\<close>

lemma body_end_resumes_from_last_record:
  assumes "stream E n baseURL cursor w = (tr, w', out)"
    and "tr = pre @ BodyEnd err # post"
    and "err = None \<or> err = Some ErrUnexpectedEOF"
    and "objectBytes_after None pre = Some d"
    and "Unmarshal (lib E) (Some d) object_struct = (obj, None)"
  shows "(string_field obj ''PT'' \<noteq> [] \<longrightarrow>
            (\<exists>post'. post =
               Request \<lparr>req_method = ''GET'',
                        req_url = baseURL @ ''?cursor='' @ QueryEscape (string_field obj ''PT''),
                        req_header = [(''Accept'', ''text/event-stream'')]\<rparr> # post') \<or>
            post = [] \<and> out = Running \<and> requests_sent pre = n \<or>
            post = [] \<and>
            (\<exists>e. url_error E (baseURL @ ''?cursor='' @ QueryEscape (string_field obj ''PT''))
                    = Some e \<and> out = Returned (Some e))) \<and>
         (string_field obj ''PT'' = [] \<longrightarrow>
            post = [] \<and>
            out = Returned (Some (ErrorsNew ''no paging_token in object: cannot continue'')))"
proof -
  from assms(1) have sl:
    "stream_loop E n baseURL (case cursor of None \<Rightarrow> [] | Some c \<Rightarrow> Values_Set [] ''cursor'' c) w =
       (tr, w', out)"
    by (simp add: stream_def)
  from stream_loop_body_end[OF sl assms(2,3) stream_query] assms(4,5)
  have "after_body_end E n baseURL pre (obj, None) post out"
    by simp
  then show ?thesis
    by (auto simp: after_body_end_def stream_request_def Encode_cursor split: if_splits)
qed

text \<open>
  The same on two sample runs: a lost connection after the record 2, and a body that
  ends after a record without a paging token.
\<close>

lemma body_end_resumes_from_last_record_sample:
  "(\<exists>post'. [Request (sample_get ''http://h/effects?cursor=2''),
             Delivered (sample_record ''3'') None, BodyEnd (Some (Foreign ''tls''))] =
      Request \<lparr>req_method = ''GET'', req_url = ''http://h/effects'' @ ''?cursor='' @ QueryEscape ''2'',
               req_header = [(''Accept'', ''text/event-stream'')]\<rparr> # post') \<and>
   Returned (Some (ErrorsNew ''no paging_token in object: cannot continue'')) =
     Returned (Some (ErrorsNew ''no paging_token in object: cannot continue''))"
proof -
  let ?pre = "[Request (sample_get ''http://h/effects?''), Delivered (sample_record ''1'') None,
               Delivered (sample_record ''2'') None]"
  let ?post = "[Request (sample_get ''http://h/effects?cursor=2''),
                Delivered (sample_record ''3'') None, BodyEnd (Some (Foreign ''tls''))]"
  let ?obj = "VStruct [(''PT'', VString ''2'')]"
  have ob: "objectBytes_after None ?pre = Some (sample_record ''2'')"
    by simp
  have um: "Unmarshal (lib sample_env) (Some (sample_record ''2'')) object_struct = (?obj, None)"
    by code_simp
  have pt: "string_field ?obj ''PT'' = ''2''"
    by code_simp
  have nourl: "url_error sample_env u = None" for u
    by (simp add: sample_env_def)
  from body_end_resumes_from_last_record[OF sample_run_reconnect, of ?pre "Some ErrUnexpectedEOF"
         ?post "sample_record ''2''" ?obj] ob um
  have 1: "\<exists>post'. ?post =
      Request \<lparr>req_method = ''GET'', req_url = ''http://h/effects'' @ ''?cursor='' @ QueryEscape ''2'',
               req_header = [(''Accept'', ''text/event-stream'')]\<rparr> # post'"
    unfolding pt by (simp add: nourl)
  let ?pre' = "[Request (sample_get ''http://h/effects?cursor=c0''),
                Delivered (sample_record ''1'') None, Delivered (sample_record ''nopt'') None]"
  let ?obj' = "VStruct [(''PT'', VString [])]"
  have ob': "objectBytes_after None ?pre' = Some (sample_record ''nopt'')"
    by simp
  have um': "Unmarshal (lib sample_env) (Some (sample_record ''nopt'')) object_struct = (?obj', None)"
    by code_simp
  have pt': "string_field ?obj' ''PT'' = []"
    by code_simp
  from body_end_resumes_from_last_record[OF sample_run_no_token, of ?pre' None "[]"
         "sample_record ''nopt''" ?obj'] ob' um' pt'
  have 2: "Returned (Some (ErrorsNew ''no paging_token in object: cannot continue'')) =
     Returned (Some (ErrorsNew ''no paging_token in object: cannot continue''))"
    by simp
  from 1 2 show ?thesis by blast
qed

text \<open>
  C5, as stated: a frame that does not parse is skipped and the loop goes on with the
  following frames.  The code returns: after the frame \<open>bad\<close> the run is over with the
  error of \<open>parseEvent\<close>, the frame 2 is still in the body and no second connection
  is made.
\<close>

theorem malformed_frame_is_not_skipped:
  "stream sample_env 7 ''http://h/effects'' None (script [([''1'', ''bad'', ''2''], None), ([''3''], None)]) =
     ([Request (sample_get ''http://h/effects?''),
       Delivered (sample_record ''1'') None,
       FrameError ''bad'' (Foreign ''malformed frame'')],
      \<lparr>conns = [([''3''], None)], body = [''2''], body_err = None, cancelled = False\<rparr>,
      Returned (Some (Foreign ''malformed frame'')))"
  by code_simp

text \<open>
  C5, amended: in every run, a frame that \<open>parseEvent\<close> rejects ends the run: the run
  returns the error of \<open>parseEvent\<close>, and nothing is delivered or requested after
  that frame.
\<close>

theorem frame_error_ends_run:
  assumes "stream E n baseURL cursor w = (tr, w', out)"
    and "tr = pre @ FrameError tok e # post"
  shows "post = [] \<and> out = Returned (Some e)"
  using assms stream_loop_final[of E n baseURL _ w tr w' out pre "FrameError tok e" post "Some e"]
  by (simp add: stream_def)

text \<open>
  The amended C5 on a sample run whose first frame does not parse.
\<close>

theorem frame_error_ends_run_witness:
  "stream sample_env 7 ''http://h/effects'' (Some ''7'') (script [([''bad'', ''8''], None), ([''9''], None)]) =
     ([Request (sample_get ''http://h/effects?cursor=7'')] @
        FrameError ''bad'' (Foreign ''malformed frame'') # [],
      \<lparr>conns = [([''9''], None)], body = [''8''], body_err = None, cancelled = False\<rparr>,
      Returned (Some (Foreign ''malformed frame''))) \<and>
   ([]::json obs list) = [] \<and>
   Returned (Some (Foreign ''malformed frame'')) = Returned (Some (Foreign ''malformed frame''))"
  using frame_error_ends_run[OF sample_run_bad_frame,
          of "[Request (sample_get ''http://h/effects?cursor=7'')]" "''bad''"
             "Foreign ''malformed frame''" "[]"]
    sample_run_bad_frame
  by simp

text \<open>
  C6: in every run, a handler call that returns an error is the last thing the run
  does: no record is delivered and no request is sent after it, and the run returns
  that error.
\<close>

theorem handler_error_ends_run:
  assumes "stream E n baseURL cursor w = (tr, w', out)"
    and "tr = pre @ Delivered d (Some e) # post"
  shows "post = [] \<and> out = Returned (Some e)"
  using assms stream_loop_final[of E n baseURL _ w tr w' out pre "Delivered d (Some e)" post "Some e"]
  by (simp add: stream_def)

text \<open>
  C6 on a sample run whose handler fails on the second record.
\<close>

theorem handler_error_ends_run_witness:
  "stream sample_env 7 ''http://h/effects'' None
     (script [([''1'', ''boom'', ''3''], None), ([''4''], None)]) =
     ([Request (sample_get ''http://h/effects?''), Delivered (sample_record ''1'') None] @
        Delivered (sample_record ''boom'') (Some (Foreign ''handler failed'')) # [],
      \<lparr>conns = [([''4''], None)], body = [''3''], body_err = None, cancelled = False\<rparr>,
      Returned (Some (Foreign ''handler failed''))) \<and>
   ([]::json obs list) = [] \<and>
   Returned (Some (Foreign ''handler failed'')) = Returned (Some (Foreign ''handler failed''))"
  using handler_error_ends_run[OF sample_run_handler_error,
          of "[Request (sample_get ''http://h/effects?''), Delivered (sample_record ''1'') None]"
             "sample_record ''boom''" "Foreign ''handler failed''" "[]"]
    sample_run_handler_error
  by simp

text \<open>
  C7: the context is looked at for every frame the scanner gives, before anything is
  done with the frame: when it is done, the loop returns nil at once, the world as the
  scanner left it; and in every run an observed cancellation is the last thing the run
  does, the run returning nil.
\<close>

theorem cancellation_returns_nil:
  "(scan E w0 = (Some tok, w1) \<and> ctx_done E w1 \<longrightarrow>
      scan_loop E (Suc k) objectBytes w0 = ([Cancelled], w1, Ret None)) \<and>
   (stream E n baseURL cursor w = (tr, w', out) \<and> tr = pre @ Cancelled # post \<longrightarrow>
      post = [] \<and> out = Returned None)"
proof (rule conjI; rule impI)
  assume "scan E w0 = (Some tok, w1) \<and> ctx_done E w1"
  then show "scan_loop E (Suc k) objectBytes w0 = ([Cancelled], w1, Ret None)"
    by simp
next
  assume a: "stream E n baseURL cursor w = (tr, w', out) \<and> tr = pre @ Cancelled # post"
  then have sl:
    "stream_loop E n baseURL (case cursor of None \<Rightarrow> [] | Some c \<Rightarrow> Values_Set [] ''cursor'' c) w =
       (tr, w', out)"
    by (simp add: stream_def)
  from a have "tr = pre @ Cancelled # post" by simp
  from stream_loop_final[OF sl this, of None] show "post = [] \<and> out = Returned None"
    by simp
qed

text \<open>
  C7 on a cancelled context with frames still in the body, and on a sample run whose
  handler cancels the context on the second record.
\<close>

theorem cancellation_returns_nil_witness:
  "scan_loop sample_env (Suc 3) (Some (sample_record ''stop''))
     \<lparr>conns = [], body = [''3'', ''4''], body_err = None, cancelled = True\<rparr> =
     ([Cancelled], \<lparr>conns = [], body = [''4''], body_err = None, cancelled = True\<rparr>, Ret None) \<and>
   ([]::json obs list) = [] \<and> Returned None = Returned None"
proof -
  let ?w0 = "\<lparr>conns = [], body = [''3'', ''4''], body_err = None, cancelled = True\<rparr>"
  let ?w1 = "\<lparr>conns = [], body = [''4''], body_err = None, cancelled = True\<rparr>"
  let ?pre = "[Request (sample_get ''http://h/effects?''), Delivered (sample_record ''1'') None,
               Delivered (sample_record ''stop'') None]"
  have 1: "scan sample_env ?w0 = (Some ''3'', ?w1)"
    by (simp add: sample_env_def)
  have 2: "ctx_done sample_env ?w1"
    by (simp add: sample_env_def)
  note inst = cancellation_returns_nil[of sample_env ?w0 "''3''" ?w1 3 "Some (sample_record ''stop'')"
      7 "''http://h/effects''" None "script [([''1'', ''stop'', ''3''], None), ([''4''], None)]"
      _ _ _ ?pre "[]"]
  from inst 1 2 have a: "scan_loop sample_env (Suc 3) (Some (sample_record ''stop'')) ?w0 =
      ([Cancelled], ?w1, Ret None)"
    by blast
  from inst sample_run_cancelled have b: "([]::json obs list) = [] \<and> Returned None = Returned None"
    by simp
  from a b show ?thesis by blast
qed

text \<open>
  C8: in every run, the end of a body with a scanner error other than
  \<open>io.ErrUnexpectedEOF\<close> is the last thing the run does, the run returning that error;
  and every reconnect comes right after the end of a body whose scanner error is nil or
  \<open>io.ErrUnexpectedEOF\<close>.
\<close>

theorem fatal_scanner_error_ends_run:
  "(stream E n baseURL cursor w = (tr, w', out) \<and> tr = pre @ BodyEnd (Some e) # post \<and>
    e \<noteq> ErrUnexpectedEOF \<longrightarrow>
      post = [] \<and> out = Returned (Some e)) \<and>
   (stream E n baseURL cursor w = (tr, w', out) \<and> tr = pre' @ Request r # post' \<and> pre' \<noteq> [] \<longrightarrow>
      (\<exists>p. pre' = p @ [BodyEnd None] \<or> pre' = p @ [BodyEnd (Some ErrUnexpectedEOF)]))"
proof (rule conjI; rule impI)
  assume a: "stream E n baseURL cursor w = (tr, w', out) \<and> tr = pre @ BodyEnd (Some e) # post \<and>
    e \<noteq> ErrUnexpectedEOF"
  then have sl:
    "stream_loop E n baseURL (case cursor of None \<Rightarrow> [] | Some c \<Rightarrow> Values_Set [] ''cursor'' c) w =
       (tr, w', out)"
    by (simp add: stream_def)
  from a have "tr = pre @ BodyEnd (Some e) # post" by simp
  from stream_loop_final[OF sl this, of "Some e"] a show "post = [] \<and> out = Returned (Some e)"
    by simp
next
  assume a: "stream E n baseURL cursor w = (tr, w', out) \<and> tr = pre' @ Request r # post' \<and> pre' \<noteq> []"
  then have sl:
    "stream_loop E n baseURL (case cursor of None \<Rightarrow> [] | Some c \<Rightarrow> Values_Set [] ''cursor'' c) w =
       (tr, w', out)"
    by (simp add: stream_def)
  from stream_loop_reconnect[OF sl _ _ stream_query, of pre' r post'] a
  show "\<exists>p. pre' = p @ [BodyEnd None] \<or> pre' = p @ [BodyEnd (Some ErrUnexpectedEOF)]"
    by blast
qed

text \<open>
  C8 on the sample run with a reconnect: it reconnects after
  \<open>io.ErrUnexpectedEOF\<close> and returns on the next error.
\<close>

theorem fatal_scanner_error_ends_run_witness:
  "(([]::json obs list) = [] \<and> Returned (Some (Foreign ''tls'')) = Returned (Some (Foreign ''tls''))) \<and>
   (\<exists>p. [Request (sample_get ''http://h/effects?''), Delivered (sample_record ''1'') None,
         Delivered (sample_record ''2'') None, BodyEnd (Some ErrUnexpectedEOF)] = p @ [BodyEnd None] \<or>
        [Request (sample_get ''http://h/effects?''), Delivered (sample_record ''1'') None,
         Delivered (sample_record ''2'') None, BodyEnd (Some ErrUnexpectedEOF)] =
          p @ [BodyEnd (Some ErrUnexpectedEOF)])"
proof -
  let ?pre' = "[Request (sample_get ''http://h/effects?''), Delivered (sample_record ''1'') None,
         Delivered (sample_record ''2'') None, BodyEnd (Some ErrUnexpectedEOF)]"
  let ?post' = "[Delivered (sample_record ''3'') None, BodyEnd (Some (Foreign ''tls''))]"
  let ?pre = "?pre' @ [Request (sample_get ''http://h/effects?cursor=2''),
                Delivered (sample_record ''3'') None]"
  note inst = fatal_scanner_error_ends_run[of sample_env 7 "''http://h/effects''" None reconnect_script
      _ _ _ ?pre "Foreign ''tls''" "[]" ?pre' "sample_get ''http://h/effects?cursor=2''" ?post']
  from inst sample_run_reconnect show ?thesis by simp
qed

text \<open>
  C9, as stated: the cursor parameter is left out whenever the position is empty.  A
  caller that passes a pointer to the empty string gets the request
  \<open>http://h/effects?cursor=\<close>: the parameter is there, with an empty value.
\<close>

theorem empty_start_position_is_sent:
  "stream sample_env 1 ''http://h/effects'' (Some []) (script []) =
     ([Request \<lparr>req_method = ''GET'', req_url = ''http://h/effects?cursor='',
                req_header = [(''Accept'', ''text/event-stream'')]\<rparr>],
      script [],
      Returned (Some (Foreign ''connection refused'')))"
  by code_simp

text \<open>
  C9, amended: every request of a run is a GET with the header
  \<open>Accept: text/event-stream\<close>; the first request has no cursor parameter exactly when
  the caller passed no start position (a nil cursor) and otherwise carries the start
  position, be it empty, as cursor; every later request carries a cursor that is not
  empty.
\<close>

theorem requests_carry_the_cursor:
  assumes "stream E n baseURL cursor w = (tr, w', out)"
    and "tr = pre @ Request r # post"
  shows "req_method r = ''GET'' \<and>
         req_header r = [(''Accept'', ''text/event-stream'')] \<and>
         (pre = [] \<longrightarrow>
            req_url r = baseURL @ ''?'' @
              (case cursor of None \<Rightarrow> [] | Some c \<Rightarrow> ''cursor='' @ QueryEscape c)) \<and>
         (pre \<noteq> [] \<longrightarrow>
            (\<exists>pt. pt \<noteq> [] \<and> req_url r = baseURL @ ''?cursor='' @ QueryEscape pt))"
proof (cases "pre = []")
  case True
  from assms(1) have sl:
    "stream_loop E n baseURL (case cursor of None \<Rightarrow> [] | Some c \<Rightarrow> Values_Set [] ''cursor'' c) w =
       (tr, w', out)"
    by (simp add: stream_def)
  from stream_loop_first[of E n baseURL _ w "Request r" post w' out] sl assms(2) True
  have "r = stream_request baseURL (case cursor of None \<Rightarrow> [] | Some c \<Rightarrow> Values_Set [] ''cursor'' c)"
    by simp
  with True show ?thesis
    by (cases cursor) (simp_all add: stream_request_def Encode_cursor Encode_empty)
next
  case False
  from assms(1) have sl:
    "stream_loop E n baseURL (case cursor of None \<Rightarrow> [] | Some c \<Rightarrow> Values_Set [] ''cursor'' c) w =
       (tr, w', out)"
    by (simp add: stream_def)
  from stream_loop_reconnect[OF sl assms(2) False stream_query] obtain obj where
    "string_field obj ''PT'' \<noteq> []"
    "r = stream_request baseURL [(''cursor'', [string_field obj ''PT''])]"
    by blast
  with False show ?thesis
    by (auto simp: stream_request_def Encode_cursor)
qed

text \<open>
  The amended C9 on the two requests of the sample run with a reconnect.
\<close>

theorem requests_carry_the_cursor_witness:
  "req_method (sample_get ''http://h/effects?'') = ''GET'' \<and>
   req_header (sample_get ''http://h/effects?'') = [(''Accept'', ''text/event-stream'')] \<and>
   req_url (sample_get ''http://h/effects?'') = ''http://h/effects'' @ ''?'' @ [] \<and>
   (\<exists>pt. pt \<noteq> [] \<and>
      req_url (sample_get ''http://h/effects?cursor=2'') = ''http://h/effects'' @ ''?cursor='' @ QueryEscape pt)"
proof -
  let ?t1 = "[Delivered (sample_record ''1'') None,
       Delivered (sample_record ''2'') None,
       BodyEnd (Some ErrUnexpectedEOF),
       Request (sample_get ''http://h/effects?cursor=2''),
       Delivered (sample_record ''3'') None,
       BodyEnd (Some (Foreign ''tls''))]"
  let ?pre = "[Request (sample_get ''http://h/effects?''), Delivered (sample_record ''1'') None,
         Delivered (sample_record ''2'') None, BodyEnd (Some ErrUnexpectedEOF)]"
  let ?post = "[Delivered (sample_record ''3'') None, BodyEnd (Some (Foreign ''tls''))]"
  from requests_carry_the_cursor[OF sample_run_reconnect, of "[]" "sample_get ''http://h/effects?''" ?t1]
  have 1: "req_method (sample_get ''http://h/effects?'') = ''GET'' \<and>
   req_header (sample_get ''http://h/effects?'') = [(''Accept'', ''text/event-stream'')] \<and>
   req_url (sample_get ''http://h/effects?'') = ''http://h/effects'' @ ''?'' @ []"
    by simp
  from requests_carry_the_cursor[OF sample_run_reconnect, of ?pre
      "sample_get ''http://h/effects?cursor=2''" ?post]
  have 2: "\<exists>pt. pt \<noteq> [] \<and>
      req_url (sample_get ''http://h/effects?cursor=2'') = ''http://h/effects'' @ ''?cursor='' @ QueryEscape pt"
    by simp
  from 1 2 show ?thesis by blast
qed

end
